theory Spec2Isabelle
  imports Complex_Main
begin

section \<open>Faults and geometry primitives\<close>

text \<open>
  The decider works on C++ \<open>double\<close>s; the model takes them as real numbers, so every
  statement below is about exact arithmetic.

  A C++ operation with no defined result (an index or iterator outside its vector,
  \<open>front\<close>/\<open>back\<close> of an empty vector, a failed \<open>CHECK\<close>, a division by zero, an
  allocation of a negative size, a loop that does not end) is a \<open>fault\<close>; a function
  that can meet one returns \<open>fault + result\<close>.
\<close>

datatype fault = OutOfRange | CheckFailed | DivisionByZero | BadAlloc | NoReturn

record Vec2d =
  vx :: real
  vy :: real

text \<open>
  Modelled from the spec: the geometry primitives (\<open>common::math::Vec2d\<close>, \<open>CrossProd\<close>)
  are not among the source files; the spec lists them as a 2D vector with rotate,
  translate, cross product and distance. A division by zero has no real result (the
  \<open>double\<close> is infinite or not a number); it is a fault.
\<close>

definition mkVec2d :: "real \<Rightarrow> real \<Rightarrow> Vec2d" where
  "mkVec2d a b = \<lparr>vx = a, vy = b\<rparr>"

definition vec_add :: "Vec2d \<Rightarrow> Vec2d \<Rightarrow> Vec2d" where
  "vec_add p q = \<lparr>vx = vx p + vx q, vy = vy p + vy q\<rparr>"

definition vec_sub :: "Vec2d \<Rightarrow> Vec2d \<Rightarrow> Vec2d" where
  "vec_sub p q = \<lparr>vx = vx p - vx q, vy = vy p - vy q\<rparr>"

definition vec_mul :: "Vec2d \<Rightarrow> real \<Rightarrow> Vec2d" where
  "vec_mul p r = \<lparr>vx = vx p * r, vy = vy p * r\<rparr>"

definition vec_div :: "Vec2d \<Rightarrow> real \<Rightarrow> fault + Vec2d" where
  "vec_div p r = (if r = 0 then Inl DivisionByZero else Inr \<lparr>vx = vx p / r, vy = vy p / r\<rparr>)"

definition SelfRotate :: "Vec2d \<Rightarrow> real \<Rightarrow> Vec2d" where
  "SelfRotate p a = \<lparr>vx = vx p * cos a - vy p * sin a, vy = vx p * sin a + vy p * cos a\<rparr>"

definition DistanceTo :: "Vec2d \<Rightarrow> Vec2d \<Rightarrow> real" where
  "DistanceTo p q = sqrt ((vx p - vx q)\<^sup>2 + (vy p - vy q)\<^sup>2)"

definition CrossProd :: "Vec2d \<Rightarrow> Vec2d \<Rightarrow> Vec2d \<Rightarrow> real" where
  "CrossProd start_point end_point_1 end_point_2 =
     (vx end_point_1 - vx start_point) * (vy end_point_2 - vy start_point)
   - (vy end_point_1 - vy start_point) * (vx end_point_2 - vx start_point)"

section \<open>The segment fuser\<close>

type_synonym segment = "Vec2d list"

text \<open>The local constant \<open>kEpsilon\<close> of \<open>FuseLineSegments\<close>.\<close>

definition kEpsilon :: real where
  "kEpsilon = 1 / 10 ^ 8"

text \<open>
  \<open>FuseLineSegments\<close> walks the vector with the iterator \<open>cur_segment\<close>. The loop state
  is the vector split at the iterator: the segments before it (\<open>pre\<close>), the segment it
  points to (\<open>cur\<close>) and the segments after it (\<open>rest\<close>, whose head is \<open>next_segment\<close>).
  The loop ends when \<open>cur_segment\<close> is the last element. The result is the value
  returned together with the vector as the call leaves it.
\<close>

function fuse_loop :: "segment list \<Rightarrow> segment \<Rightarrow> segment list \<Rightarrow> fault + (bool \<times> segment list)" where
  "fuse_loop pre cur [] = Inr (True, pre @ [cur])"
| "fuse_loop pre cur (next # rest) =
     (if cur = [] \<or> next = [] then Inl OutOfRange
      else if DistanceTo (last cur) (hd next) > kEpsilon
        then fuse_loop (pre @ [cur]) next rest
      else if length cur < 2 \<or> length next < 2
        then Inr (False, pre @ cur # next # rest)
      else if CrossProd (cur ! (length cur - 2)) (last cur) (next ! 1) < 0
        then (let cur' = cur @ [next ! 1]; next' = drop 2 next
              in if next' = [] then fuse_loop pre cur' rest
                 else fuse_loop pre cur' (next' # rest))
      else fuse_loop (pre @ [cur]) next rest)"
  by pat_completeness auto
termination
  by (relation "measure (\<lambda>(pre, cur, rest). sum_list (map length rest) + length rest)") auto

definition FuseLineSegments :: "segment list \<Rightarrow> fault + (bool \<times> segment list)" where
  "FuseLineSegments line_segments_vec =
     (case line_segments_vec of
        [] \<Rightarrow> Inl OutOfRange
      | cur # rest \<Rightarrow> fuse_loop [] cur rest)"

section \<open>The hyperplane generator\<close>

text \<open>
  An \<open>Eigen::MatrixXd\<close> is the list of its rows; the \<open>Eigen::MatrixXi\<close> column of edge
  counts is an \<open>int list\<close>.
\<close>

type_synonym matrix = "real list list"

definition Zero_matrix :: "nat \<Rightarrow> nat \<Rightarrow> matrix" where
  "Zero_matrix r c = replicate r (replicate c 0)"

text \<open>
  \<open>resize\<close> keeps a matrix whose size does not change. Eigen leaves the entries of a
  matrix it reallocates unspecified; the model fills them with zeros.
\<close>

definition resize :: "matrix \<Rightarrow> int \<Rightarrow> nat \<Rightarrow> fault + matrix" where
  "resize M r c =
     (if r < 0 then Inl CheckFailed
      else if length M = nat r \<and> list_all (\<lambda>row. length row = c) M then Inr M
      else Inr (Zero_matrix (nat r) c))"

text \<open>\<open>M.block(start_row, 0, rows(blk), cols) = blk\<close>\<close>

definition write_block :: "nat \<Rightarrow> matrix \<Rightarrow> matrix \<Rightarrow> fault + matrix" where
  "write_block start_row blk M =
     (if start_row + length blk \<le> length M
      then Inr (take start_row M @ blk @ drop (start_row + length blk) M)
      else Inl OutOfRange)"

text \<open>The local constant \<open>kEpsilon\<close> of \<open>GetHyperPlanes\<close>.\<close>

definition kEpsilon_hyperplane :: real where
  "kEpsilon_hyperplane = 1 / 10 ^ 5"

text \<open>Eigen's inverse of a 2x2 matrix \<open>((p, q), (r, s))\<close>, by the adjugate.\<close>

definition inverse_2x2 :: "(real \<times> real) \<times> (real \<times> real) \<Rightarrow> (real \<times> real) \<times> (real \<times> real)" where
  "inverse_2x2 m =
     (case m of ((p, q), (r, s)) \<Rightarrow>
        let det = p * s - q * r in ((s / det, - q / det), (- r / det, p / det)))"

definition mat_vec_2x2 :: "(real \<times> real) \<times> (real \<times> real) \<Rightarrow> real \<times> real \<Rightarrow> real \<times> real" where
  "mat_vec_2x2 m v =
     (case m of ((p, q), (r, s)) \<Rightarrow> case v of (u, w) \<Rightarrow> (p * u + q * w, r * u + s * w))"

text \<open>
  The body of the inner loop of \<open>GetHyperPlanes\<close>: the row of \<open>A\<close> (\<open>A_tmp\<close> transposed) and
  the entry of \<open>b\<close> (\<open>b_tmp\<close>) for the edge from \<open>v1\<close> to \<open>v2\<close>.
\<close>

definition edge_hyperplane :: "Vec2d \<Rightarrow> Vec2d \<Rightarrow> real list \<times> real list" where
  "edge_hyperplane v1 v2 =
     (if \<bar>vx v1 - vx v2\<bar> < kEpsilon_hyperplane then
        (if vy v2 < vy v1 then ([1, 0], [vx v1]) else ([- 1, 0], [- vx v1]))
      else if \<bar>vy v1 - vy v2\<bar> < kEpsilon_hyperplane then
        (if vx v1 < vx v2 then ([0, 1], [vy v1]) else ([0, - 1], [- vy v1]))
      else
        (let tmp1 = ((vx v1, 1), (vx v2, 1));
             tmp2 = (vy v1, vy v2);
             ab = mat_vec_2x2 (inverse_2x2 tmp1) tmp2;
             a = fst ab;
             b = snd ab
         in if vx v1 < vx v2 then ([- a, 1], [b]) else ([a, - 1], [- b])))"

function piece_loop ::
  "Vec2d list \<Rightarrow> nat \<Rightarrow> nat \<Rightarrow> matrix \<Rightarrow> matrix \<Rightarrow> fault + (matrix \<times> matrix)" where
  "piece_loop vertices j current_vertice_num A_i b_i =
     (if j < current_vertice_num then
        (if j + 1 < length vertices then
           (let v1 = vertices ! j;
                v2 = vertices ! (j + 1);
                Ab = edge_hyperplane v1 v2
            in piece_loop vertices (j + 1) current_vertice_num
                 (A_i[j := fst Ab]) (b_i[j := snd Ab]))
         else Inl OutOfRange)
      else Inr (A_i, b_i))"
  by pat_completeness auto
termination
  by (relation "measure (\<lambda>(vertices, j, n, A_i, b_i). n - j)") auto

function hyperplanes_loop ::
  "nat \<Rightarrow> int list \<Rightarrow> Vec2d list list \<Rightarrow> nat \<Rightarrow> nat \<Rightarrow> matrix \<Rightarrow> matrix
   \<Rightarrow> fault + (matrix \<times> matrix)" where
  "hyperplanes_loop obstacles_num obstacles_edges_num obstacles_vertices_vec i counter A_all b_all =
     (if i < obstacles_num then
        (if i < length obstacles_edges_num \<and> i < length obstacles_vertices_vec then
           (if obstacles_edges_num ! i < 0 then Inl BadAlloc
            else
              (let current_vertice_num = nat (obstacles_edges_num ! i) in
               case piece_loop (obstacles_vertices_vec ! i) 0 current_vertice_num
                      (Zero_matrix current_vertice_num 2) (Zero_matrix current_vertice_num 1) of
                 Inl e \<Rightarrow> Inl e
               | Inr (A_i, b_i) \<Rightarrow>
                   (case write_block counter A_i A_all of
                      Inl e \<Rightarrow> Inl e
                    | Inr A_all' \<Rightarrow>
                        (case write_block counter b_i b_all of
                           Inl e \<Rightarrow> Inl e
                         | Inr b_all' \<Rightarrow>
                             hyperplanes_loop obstacles_num obstacles_edges_num
                               obstacles_vertices_vec (i + 1) (counter + current_vertice_num)
                               A_all' b_all'))))
         else Inl OutOfRange)
      else Inr (A_all, b_all))"
  by pat_completeness auto
termination
  by (relation "measure (\<lambda>(n, e, v, i, c, A, b). n - i)") auto

definition GetHyperPlanes ::
  "nat \<Rightarrow> int list \<Rightarrow> Vec2d list list \<Rightarrow> matrix \<Rightarrow> matrix \<Rightarrow> fault + (bool \<times> matrix \<times> matrix)" where
  "GetHyperPlanes obstacles_num obstacles_edges_num obstacles_vertices_vec A_all b_all =
     (if obstacles_num \<noteq> length obstacles_vertices_vec then Inr (False, A_all, b_all)
      else
        case resize A_all (sum_list obstacles_edges_num) 2 of
          Inl e \<Rightarrow> Inl e
        | Inr A0 \<Rightarrow>
            (case resize b_all (sum_list obstacles_edges_num) 1 of
               Inl e \<Rightarrow> Inl e
             | Inr b0 \<Rightarrow>
                 (case hyperplanes_loop obstacles_num obstacles_edges_num
                         obstacles_vertices_vec 0 0 A0 b0 of
                    Inl e \<Rightarrow> Inl e
                  | Inr (A, b) \<Rightarrow> Inr (True, A, b))))"

section \<open>The planning state\<close>

text \<open>
  Modelled from the spec: \<open>common::math::Box2d\<close> is not among the source files; the spec
  describes a bounding box that is shifted, extended along and across its heading, and
  whose four corners are listed in counter-clockwise order. The distance from a box to a
  point (\<open>Box2d::DistanceTo\<close>) is a parameter of the model.
\<close>

record Box2d =
  center :: Vec2d
  box_length :: real
  box_width :: real
  box_heading :: real

definition Shift :: "Box2d \<Rightarrow> Vec2d \<Rightarrow> Box2d" where
  "Shift box shift_vec = box\<lparr>center := vec_add (center box) shift_vec\<rparr>"

definition LongitudinalExtend :: "Box2d \<Rightarrow> real \<Rightarrow> Box2d" where
  "LongitudinalExtend box extension_length = box\<lparr>box_length := box_length box + extension_length\<rparr>"

definition LateralExtend :: "Box2d \<Rightarrow> real \<Rightarrow> Box2d" where
  "LateralExtend box extension_length = box\<lparr>box_width := box_width box + extension_length\<rparr>"

definition GetAllCorners :: "Box2d \<Rightarrow> Vec2d list" where
  "GetAllCorners box =
     (let dx1 = cos (box_heading box) * (box_length box / 2);
          dy1 = sin (box_heading box) * (box_length box / 2);
          dx2 = sin (box_heading box) * (box_width box / 2);
          dy2 = - cos (box_heading box) * (box_width box / 2);
          cx = vx (center box);
          cy = vy (center box)
      in [mkVec2d (cx + dx1 + dx2) (cy + dy1 + dy2),
          mkVec2d (cx + dx1 - dx2) (cy + dy1 - dy2),
          mkVec2d (cx - dx1 - dx2) (cy - dy1 - dy2),
          mkVec2d (cx - dx1 + dx2) (cy - dy1 + dy2)])"

record Obstacle =
  IsVirtual :: bool
  PerceptionBoundingBox :: Box2d

record VehicleState =
  state_x :: real
  state_y :: real
  state_heading :: real

record OpenSpaceInfo =
  origin_heading :: real
  origin_point :: Vec2d
  ROI_xy_boundary :: "real list"
  open_space_end_pose :: "real list"
  obstacles_vertices_vec :: "Vec2d list list"
  obstacles_edges_num :: "int list"
  obstacles_num :: nat
  obstacles_A :: matrix
  obstacles_b :: matrix

text \<open>
  The frame: its open-space record, the vehicle state, the obstacles of the frame, and
  the parking space id of the routing request (\<open>None\<close> when the request has no parking
  space or the space has no id).
\<close>

record Frame =
  open_space_info :: OpenSpaceInfo
  vehicle_state :: VehicleState
  obstacles_by_frame :: "Obstacle list"
  routing_parking_space_id :: "string option"

record OpenSpaceRoiDeciderConfig =
  roi_longitudinal_range :: real
  roi_linesegment_min_angle :: real
  roi_linesegment_length :: real
  parking_depth_buffer :: real
  parking_inwards :: bool
  enable_perception_obstacles :: bool
  perception_obstacle_buffer :: real
  perception_obstacle_filtering_distance :: real

record VehicleParam =
  front_edge_to_center :: real
  back_edge_to_center :: real

text \<open>Reading element \<open>i\<close> of a vector with \<open>operator[]\<close>.\<close>

definition at_index :: "'a list \<Rightarrow> nat \<Rightarrow> fault + 'a" where
  "at_index xs i = (if i < length xs then Inr (xs ! i) else Inl OutOfRange)"

section \<open>Loading the obstacles\<close>

definition FilterOutObstacle ::
  "OpenSpaceRoiDeciderConfig \<Rightarrow> (Box2d \<Rightarrow> Vec2d \<Rightarrow> real) \<Rightarrow> Frame \<Rightarrow> Obstacle \<Rightarrow> fault + bool" where
  "FilterOutObstacle config box_distance frame obstacle =
     (if IsVirtual obstacle then Inr True
      else
        let info = open_space_info frame;
            obstacle_box = PerceptionBoundingBox obstacle;
            obstacle_center_xy =
              SelfRotate (vec_sub (center obstacle_box) (origin_point info)) (- origin_heading info);
            roi_xy_boundary = ROI_xy_boundary info
        in case at_index roi_xy_boundary 0 of Inl e \<Rightarrow> Inl e | Inr xmin \<Rightarrow>
           if vx obstacle_center_xy < xmin then Inr True else
           case at_index roi_xy_boundary 1 of Inl e \<Rightarrow> Inl e | Inr xmax \<Rightarrow>
           if vx obstacle_center_xy > xmax then Inr True else
           case at_index roi_xy_boundary 2 of Inl e \<Rightarrow> Inl e | Inr ymin \<Rightarrow>
           if vy obstacle_center_xy < ymin then Inr True else
           case at_index roi_xy_boundary 3 of Inl e \<Rightarrow> Inl e | Inr ymax \<Rightarrow>
           if vy obstacle_center_xy > ymax then Inr True else
             let end_pose = open_space_end_pose info in
             case at_index end_pose 0 of Inl e \<Rightarrow> Inl e | Inr end_pose_x \<Rightarrow>
             case at_index end_pose 1 of Inl e \<Rightarrow> Inl e | Inr end_pose_y \<Rightarrow>
               let end_pose_x_y =
                     vec_add (SelfRotate (mkVec2d end_pose_x end_pose_y) (origin_heading info))
                       (origin_point info);
                   vehicle_x_y = mkVec2d (state_x (vehicle_state frame)) (state_y (vehicle_state frame));
                   vehicle_center_to_obstacle = box_distance obstacle_box vehicle_x_y;
                   end_pose_center_to_obstacle = box_distance obstacle_box end_pose_x_y;
                   filtering_distance = perception_obstacle_filtering_distance config
               in if vehicle_center_to_obstacle > filtering_distance \<and>
                     end_pose_center_to_obstacle > filtering_distance then Inr True
                  else Inr False)"

text \<open>
  The vertices pushed for one perception obstacle: the corners of the shifted and
  extended box taken from the back (clockwise), each rotated, and the first one repeated
  at the end.
\<close>

definition perception_vertices :: "OpenSpaceRoiDeciderConfig \<Rightarrow> OpenSpaceInfo \<Rightarrow> Obstacle \<Rightarrow> fault + Vec2d list" where
  "perception_vertices config info obstacle =
     (let original_box =
            LateralExtend
              (LongitudinalExtend
                 (Shift (PerceptionBoundingBox obstacle) (vec_mul (origin_point info) (- 1)))
                 (perception_obstacle_buffer config))
              (perception_obstacle_buffer config);
          vertices_ccw = GetAllCorners original_box;
          vertices_cw = map (\<lambda>current_corner_pt. SelfRotate current_corner_pt (- 1 * origin_heading info))
                          (rev vertices_ccw)
      in if vertices_cw = [] then Inl OutOfRange else Inr (vertices_cw @ [hd vertices_cw]))"

text \<open>The loop over the obstacles of the frame: the pieces pushed, in order.\<close>

fun perception_loop ::
  "OpenSpaceRoiDeciderConfig \<Rightarrow> (Box2d \<Rightarrow> Vec2d \<Rightarrow> real) \<Rightarrow> Frame \<Rightarrow> Obstacle list \<Rightarrow> fault + Vec2d list list" where
  "perception_loop config box_distance frame [] = Inr []"
| "perception_loop config box_distance frame (obstacle # obstacles) =
     (case FilterOutObstacle config box_distance frame obstacle of
        Inl e \<Rightarrow> Inl e
      | Inr True \<Rightarrow> perception_loop config box_distance frame obstacles
      | Inr False \<Rightarrow>
          (case perception_vertices config (open_space_info frame) obstacle of
             Inl e \<Rightarrow> Inl e
           | Inr vertices_cw \<Rightarrow>
               (case perception_loop config box_distance frame obstacles of
                  Inl e \<Rightarrow> Inl e
                | Inr pieces \<Rightarrow> Inr (vertices_cw # pieces))))"

text \<open>
  \<open>static_cast<int>(size) - 1\<close> is taken in the integers: a vector of more than \<open>2^31\<close>
  points is outside the model.
\<close>

definition LoadObstacleInVertices ::
  "OpenSpaceRoiDeciderConfig \<Rightarrow> (Box2d \<Rightarrow> Vec2d \<Rightarrow> real) \<Rightarrow> segment list \<Rightarrow> Frame \<Rightarrow> fault + (bool \<times> Frame)" where
  "LoadObstacleInVertices config box_distance roi_parking_boundary frame =
     (let info = open_space_info frame;
          parking_boundaries_num = length roi_parking_boundary;
          vertices = obstacles_vertices_vec info @ roi_parking_boundary
      in if \<not> list_all (\<lambda>piece. length piece > 1) roi_parking_boundary then Inl CheckFailed
         else
           let parking_boundaries_obstacles_edges_num =
                 map (\<lambda>piece. int (length piece) - 1) roi_parking_boundary
           in if enable_perception_obstacles config then
                (case perception_loop config box_distance frame (obstacles_by_frame frame) of
                   Inl e \<Rightarrow> Inl e
                 | Inr pieces \<Rightarrow>
                     let perception_obstacles_num = length pieces;
                         perception_obstacles_edges_num = replicate perception_obstacles_num 4
                     in Inr (True, frame\<lparr>open_space_info := info
                          \<lparr>obstacles_vertices_vec := vertices @ pieces,
                           obstacles_edges_num :=
                             parking_boundaries_obstacles_edges_num @ perception_obstacles_edges_num,
                           obstacles_num := parking_boundaries_num + perception_obstacles_num\<rparr>\<rparr>))
              else
                Inr (True, frame\<lparr>open_space_info := info
                  \<lparr>obstacles_vertices_vec := vertices,
                   obstacles_edges_num := parking_boundaries_obstacles_edges_num,
                   obstacles_num := parking_boundaries_num\<rparr>\<rparr>))"

definition LoadObstacleInHyperPlanes :: "Frame \<Rightarrow> fault + (bool \<times> Frame)" where
  "LoadObstacleInHyperPlanes frame =
     (let info = open_space_info frame;
          rows = sum_list (obstacles_edges_num info)
      in if rows < 0 then Inl CheckFailed
         else
           case GetHyperPlanes (obstacles_num info) (obstacles_edges_num info)
                  (obstacles_vertices_vec info) (Zero_matrix (nat rows) 2) (Zero_matrix (nat rows) 1) of
             Inl e \<Rightarrow> Inl e
           | Inr (ok, A, b) \<Rightarrow>
               Inr (ok, frame\<lparr>open_space_info := info\<lparr>obstacles_A := A, obstacles_b := b\<rparr>\<rparr>))"

definition FormulateBoundaryConstraints ::
  "OpenSpaceRoiDeciderConfig \<Rightarrow> (Box2d \<Rightarrow> Vec2d \<Rightarrow> real) \<Rightarrow> segment list \<Rightarrow> Frame \<Rightarrow> fault + (bool \<times> Frame)" where
  "FormulateBoundaryConstraints config box_distance roi_parking_boundary frame =
     (case LoadObstacleInVertices config box_distance roi_parking_boundary frame of
        Inl e \<Rightarrow> Inl e
      | Inr (ok1, frame1) \<Rightarrow>
          if \<not> ok1 then Inr (False, frame1)
          else
            (case LoadObstacleInHyperPlanes frame1 of
               Inl e \<Rightarrow> Inl e
             | Inr (ok2, frame2) \<Rightarrow> if \<not> ok2 then Inr (False, frame2) else Inr (True, frame2)))"

section \<open>The lane boundary and the parking spot\<close>

subsection \<open>Map queries and angles\<close>

text \<open>
  Modelled from the spec: the path and lane query service is an external collaborator
  that returns the arc-length projection \<open>(s, l)\<close> of a point, the smooth point at arc
  length \<open>s\<close> with its heading, and the left and right road width at \<open>s\<close>. A path is the
  record of these four queries; a parking space is its polygon.
\<close>

record MapPathPoint = Vec2d +
  heading :: real

record Path =
  GetSmoothPoint :: "real \<Rightarrow> MapPathPoint"
  GetRoadLeftWidth :: "real \<Rightarrow> real"
  GetRoadRightWidth :: "real \<Rightarrow> real"
  GetProjection :: "Vec2d \<Rightarrow> (real \<times> real) option"

record ParkingSpaceInfo =
  polygon_points :: "Vec2d list"

text \<open>\<open>points().at(i)\<close> throws when \<open>i\<close> is out of range, and nothing catches it.\<close>

definition points_at :: "Vec2d list \<Rightarrow> nat \<Rightarrow> fault + Vec2d" where
  "points_at ps i = (if i < length ps then Inr (ps ! i) else Inl OutOfRange)"

text \<open>
  Modelled from the spec: \<open>common::math::NormalizeAngle\<close> and \<open>Vec2d::Angle\<close> are not among
  the source files. \<open>NormalizeAngle\<close> brings an angle into \<open>[-pi, pi)\<close> with the C remainder
  \<open>fmod\<close> (whose quotient is rounded towards zero); \<open>Angle\<close> is \<open>atan2 (y, x)\<close>.
\<close>

definition fmod :: "real \<Rightarrow> real \<Rightarrow> real" where
  "fmod a m = a - m * (if 0 \<le> a / m then of_int \<lfloor>a / m\<rfloor> else of_int \<lceil>a / m\<rceil>)"

definition NormalizeAngle :: "real \<Rightarrow> real" where
  "NormalizeAngle angle =
     (let a = fmod (angle + pi) (2 * pi);
          a' = (if a < 0 then a + 2 * pi else a)
      in a' - pi)"

definition atan2 :: "real \<Rightarrow> real \<Rightarrow> real" where
  "atan2 b a =
     (if 0 < a then arctan (b / a)
      else if a < 0 \<and> 0 \<le> b then arctan (b / a) + pi
      else if a < 0 \<and> b < 0 then arctan (b / a) - pi
      else if 0 < b then pi / 2
      else if b < 0 then - (pi / 2)
      else 0)"

definition Angle :: "Vec2d \<Rightarrow> real" where
  "Angle p = atan2 (vy p) (vx p)"

subsection \<open>The sampling loop\<close>

record LaneSamples =
  left_lane_boundary :: "Vec2d list"
  right_lane_boundary :: "Vec2d list"
  center_lane_boundary :: "Vec2d list"
  center_lane_s :: "real list"
  left_lane_road_width :: "real list"
  right_lane_road_width :: "real list"

record SampleState =
  last_check_point_heading :: real
  loop_index :: real
  check_point_s :: real
  samples :: LaneSamples

definition next_check_point_s :: "OpenSpaceRoiDeciderConfig \<Rightarrow> real \<Rightarrow> real \<Rightarrow> real" where
  "next_check_point_s config end_s new_index =
     (let s = new_index * roi_linesegment_length config in if s \<ge> end_s then end_s else s)"

text \<open>
  One pass through the body of the \<open>while\<close> loop, entered with \<open>check_point_s <= end_s\<close>.
  The first component of the result is true when the body leaves the loop with \<open>break\<close>.
\<close>

definition sample_body ::
  "OpenSpaceRoiDeciderConfig \<Rightarrow> Path \<Rightarrow> real \<Rightarrow> real \<Rightarrow> SampleState \<Rightarrow> bool \<times> SampleState" where
  "sample_body config nearby_path start_s end_s st =
     (let check_point = GetSmoothPoint nearby_path (check_point_s st);
          check_point_heading = heading check_point
      in if \<bar>NormalizeAngle (check_point_heading - last_check_point_heading st)\<bar>
              < roi_linesegment_min_angle config \<and>
            check_point_s st \<noteq> start_s \<and> check_point_s st \<noteq> end_s
         then
           (False, st\<lparr>loop_index := loop_index st + 1,
                      check_point_s := next_check_point_s config end_s (loop_index st + 1),
                      last_check_point_heading := check_point_heading\<rparr>)
         else
           let point_left_road_width = GetRoadLeftWidth nearby_path (check_point_s st);
               point_right_road_width = GetRoadRightWidth nearby_path (check_point_s st);
               point_right_vec_cos = cos (check_point_heading - pi / 2);
               point_right_vec_sin = sin (check_point_heading - pi / 2);
               point_left_vec_cos = cos (check_point_heading + pi / 2);
               point_left_vec_sin = sin (check_point_heading + pi / 2);
               right_lane_point =
                 vec_add (mkVec2d (point_right_road_width * point_right_vec_cos)
                                  (point_right_road_width * point_right_vec_sin))
                         (Vec2d.truncate check_point);
               left_lane_point =
                 vec_add (mkVec2d (point_left_road_width * point_left_vec_cos)
                                  (point_left_road_width * point_left_vec_sin))
                         (Vec2d.truncate check_point);
               acc = samples st;
               acc' = acc\<lparr>right_lane_boundary := right_lane_boundary acc @ [right_lane_point],
                          left_lane_boundary := left_lane_boundary acc @ [left_lane_point],
                          center_lane_boundary := center_lane_boundary acc @ [Vec2d.truncate check_point],
                          center_lane_s := center_lane_s acc @ [check_point_s st],
                          left_lane_road_width := left_lane_road_width acc @ [point_left_road_width],
                          right_lane_road_width := right_lane_road_width acc @ [point_right_road_width]\<rparr>
           in if check_point_s st = end_s then (True, st\<lparr>samples := acc'\<rparr>)
              else (False, st\<lparr>samples := acc',
                              loop_index := loop_index st + 1,
                              check_point_s := next_check_point_s config end_s (loop_index st + 1),
                              last_check_point_heading := check_point_heading\<rparr>))"

text \<open>
  The loop. It need not end (a segment length of zero never reaches \<open>end_s\<close>), so it is a
  partial function: \<open>None\<close> is a loop that runs forever.
\<close>

partial_function (option) sample_loop ::
  "OpenSpaceRoiDeciderConfig \<Rightarrow> Path \<Rightarrow> real \<Rightarrow> real \<Rightarrow> SampleState \<Rightarrow> SampleState option" where
  "sample_loop config nearby_path start_s end_s st =
     (if check_point_s st \<le> end_s then
        (case sample_body config nearby_path start_s end_s st of
           (leave, st') \<Rightarrow>
             if leave then Some st' else sample_loop config nearby_path start_s end_s st')
      else Some st)"

definition no_samples :: LaneSamples where
  "no_samples = \<lparr>left_lane_boundary = [], right_lane_boundary = [], center_lane_boundary = [],
                  center_lane_s = [], left_lane_road_width = [], right_lane_road_width = []\<rparr>"

definition sample_lane ::
  "OpenSpaceRoiDeciderConfig \<Rightarrow> Path \<Rightarrow> real \<Rightarrow> real \<Rightarrow> LaneSamples option" where
  "sample_lane config nearby_path start_s end_s =
     (let start_point = GetSmoothPoint nearby_path start_s
      in map_option samples
           (sample_loop config nearby_path start_s end_s
              \<lparr>last_check_point_heading = heading start_point, loop_index = 0,
               check_point_s = start_s, samples = no_samples\<rparr>))"

subsection \<open>Rescaling and stitching\<close>

text \<open>
  The body of the rescaling loop, for one point of the edge on the side of the spot;
  \<open>origin_h\<close> and \<open>origin_p\<close> are the origin heading and the origin point of the frame.
\<close>

definition rescale_point ::
  "real \<Rightarrow> Vec2d \<Rightarrow> real \<Rightarrow> Vec2d \<Rightarrow> Vec2d \<Rightarrow> real \<Rightarrow> fault + Vec2d" where
  "rescale_point origin_h origin_p scale lane_point center_point road_width =
     (let p1 = SelfRotate lane_point origin_h;
          p2 = vec_add p1 origin_p;
          p3 = vec_sub p2 center_point
      in case vec_div p3 road_width of
           Inl e \<Rightarrow> Inl e
         | Inr p4 \<Rightarrow>
             let p5 = vec_mul p4 scale;
                 p6 = vec_add p5 center_point;
                 p7 = vec_sub p6 origin_p
             in Inr (SelfRotate p7 (- origin_h)))"

fun rescale_loop ::
  "real \<Rightarrow> Vec2d \<Rightarrow> real \<Rightarrow> Vec2d list \<Rightarrow> Vec2d list \<Rightarrow> real list \<Rightarrow> fault + Vec2d list" where
  "rescale_loop origin_h origin_p scale [] centers widths = Inr []"
| "rescale_loop origin_h origin_p scale (p # ps) (c # centers) (w # widths) =
     (case rescale_point origin_h origin_p scale p c w of
        Inl e \<Rightarrow> Inl e
      | Inr q \<Rightarrow>
          (case rescale_loop origin_h origin_p scale ps centers widths of
             Inl e \<Rightarrow> Inl e
           | Inr qs \<Rightarrow> Inr (q # qs)))"
| "rescale_loop origin_h origin_p scale (p # ps) centers widths = Inl OutOfRange"

text \<open>
  \<open>std::lower_bound\<close> and \<open>std::upper_bound\<close>, as the distance of the returned iterator
  from \<open>begin()\<close>. The library searches by bisection: it keeps a range \<open>[first, first + len)\<close>,
  compares the value with the element in the middle and goes on in the half before it or
  in the half after it. The element read is always inside the range, so inside the
  vector. On a sorted vector the result is the first index whose element is not less
  than the value (the first index whose element is greater than it, for the upper bound),
  and the length when there is none. The vector of stations need not be sorted (the
  first station is \<open>start_s\<close>, the next ones are multiples of the segment length), and
  then the result is what the bisection arrives at.
\<close>

function lower_bound_loop :: "real list \<Rightarrow> real \<Rightarrow> nat \<Rightarrow> nat \<Rightarrow> nat" where
  "lower_bound_loop xs v first len =
     (if len = 0 then first
      else (let half = len div 2; middle = first + half
            in if xs ! middle < v
               then lower_bound_loop xs v (middle + 1) (len - half - 1)
               else lower_bound_loop xs v first half))"
  by pat_completeness auto
termination
  by (relation "measure (\<lambda>(xs, v, first, len). len)") auto

function upper_bound_loop :: "real list \<Rightarrow> real \<Rightarrow> nat \<Rightarrow> nat \<Rightarrow> nat" where
  "upper_bound_loop xs v first len =
     (if len = 0 then first
      else (let half = len div 2; middle = first + half
            in if v < xs ! middle
               then upper_bound_loop xs v first half
               else upper_bound_loop xs v (middle + 1) (len - half - 1)))"
  by pat_completeness auto
termination
  by (relation "measure (\<lambda>(xs, v, first, len). len)") auto

definition lower_bound :: "real list \<Rightarrow> real \<Rightarrow> nat" where
  "lower_bound xs v = lower_bound_loop xs v 0 (length xs)"

definition upper_bound :: "real list \<Rightarrow> real \<Rightarrow> nat" where
  "upper_bound xs v = upper_bound_loop xs v 0 (length xs)"

text \<open>\<open>size() - 1\<close> in \<open>size_t\<close>: it wraps for an empty vector.\<close>

definition last_index :: "'a list \<Rightarrow> nat" where
  "last_index xs = (if xs = [] then 2 ^ 64 - 1 else length xs - 1)"

text \<open>
  \<open>for (i = lo; i < hi; i++) push {xs[i], xs[i + 1]}\<close> and
  \<open>for (i = hi; i > lo; i--) push {xs[i], xs[i - 1]}\<close>.
\<close>

definition segments_up :: "Vec2d list \<Rightarrow> nat \<Rightarrow> nat \<Rightarrow> fault + segment list" where
  "segments_up xs lo hi =
     (if hi \<le> lo then Inr []
      else if hi < length xs then Inr (map (\<lambda>i. [xs ! i, xs ! (i + 1)]) [lo..<hi])
      else Inl OutOfRange)"

definition segments_down :: "Vec2d list \<Rightarrow> nat \<Rightarrow> nat \<Rightarrow> fault + segment list" where
  "segments_down xs hi lo =
     (if hi \<le> lo then Inr []
      else if hi < length xs then Inr (map (\<lambda>i. [xs ! i, xs ! (i - 1)]) (rev [lo + 1..<hi + 1]))
      else Inl OutOfRange)"

record ParkingCorners =
  left_top :: Vec2d
  left_down :: Vec2d
  right_down :: Vec2d
  right_top :: Vec2d

text \<open>
  The branch \<open>average_l < 0\<close> after the rescaling: the closed boundary polyline and the
  segments pushed to \<open>roi_parking_boundary\<close>.
\<close>

definition stitch_right ::
  "Vec2d list \<Rightarrow> Vec2d list \<Rightarrow> real list \<Rightarrow> ParkingCorners \<Rightarrow> real \<Rightarrow> real
   \<Rightarrow> fault + (Vec2d list \<times> segment list)" where
  "stitch_right right_boundary left_boundary lane_s corners left_top_s right_top_s =
     (let lb = lower_bound lane_s left_top_s;
          point_left_to_left_top_connor_index = (if lb = 0 then lb else lb - 1);
          point_right_to_right_top_connor_index = upper_bound lane_s right_top_s;
          parking_spot_boundary =
            [left_top corners, left_down corners, right_down corners, right_top corners]
      in if right_boundary = [] then Inl OutOfRange
         else
           let boundary_points =
                 take point_left_to_left_top_connor_index right_boundary @ parking_spot_boundary @
                 drop point_right_to_right_top_connor_index right_boundary @ rev left_boundary @
                 [hd right_boundary]
           in case segments_up right_boundary 0 point_left_to_left_top_connor_index of
                Inl e \<Rightarrow> Inl e
              | Inr segs1 \<Rightarrow>
                  (case at_index right_boundary point_left_to_left_top_connor_index of
                     Inl e \<Rightarrow> Inl e
                   | Inr near_point \<Rightarrow>
                       (case at_index right_boundary point_right_to_right_top_connor_index of
                          Inl e \<Rightarrow> Inl e
                        | Inr far_point \<Rightarrow>
                            (case segments_up right_boundary point_right_to_right_top_connor_index
                                    (last_index right_boundary) of
                               Inl e \<Rightarrow> Inl e
                             | Inr segs2 \<Rightarrow>
                                 (case segments_down left_boundary (last_index left_boundary) 0 of
                                    Inl e \<Rightarrow> Inl e
                                  | Inr segs3 \<Rightarrow>
                                      Inr (boundary_points,
                                           segs1 @
                                           [[near_point, left_top corners],
                                            [left_top corners, left_down corners],
                                            [left_down corners, right_down corners],
                                            [right_down corners, right_top corners],
                                            [right_top corners, far_point]] @
                                           segs2 @ segs3))))))"

text \<open>The branch \<open>average_l >= 0\<close> after the rescaling.\<close>

definition stitch_left ::
  "Vec2d list \<Rightarrow> Vec2d list \<Rightarrow> real list \<Rightarrow> ParkingCorners \<Rightarrow> real \<Rightarrow> real
   \<Rightarrow> fault + (Vec2d list \<times> segment list)" where
  "stitch_left right_boundary left_boundary lane_s corners left_top_s right_top_s =
     (let lb = lower_bound lane_s right_top_s;
          point_right_to_right_top_connor_index = (if lb \<le> 0 then lb else lb - 1);
          point_left_to_left_top_connor_index = upper_bound lane_s left_top_s;
          parking_spot_boundary =
            [left_top corners, left_down corners, right_down corners, right_top corners]
      in if right_boundary = [] then Inl OutOfRange
         else
           let boundary_points =
                 right_boundary @ rev (drop point_left_to_left_top_connor_index left_boundary) @
                 parking_spot_boundary @
                 rev (take point_right_to_right_top_connor_index left_boundary) @
                 [hd right_boundary]
           in case segments_up right_boundary 0 (last_index right_boundary) of
                Inl e \<Rightarrow> Inl e
              | Inr segs1 \<Rightarrow>
                  (case segments_down left_boundary (last_index left_boundary)
                          point_left_to_left_top_connor_index of
                     Inl e \<Rightarrow> Inl e
                   | Inr segs2 \<Rightarrow>
                       (case at_index left_boundary point_left_to_left_top_connor_index of
                          Inl e \<Rightarrow> Inl e
                        | Inr near_point \<Rightarrow>
                            (case at_index left_boundary point_right_to_right_top_connor_index of
                               Inl e \<Rightarrow> Inl e
                             | Inr far_point \<Rightarrow>
                                 (case segments_down left_boundary
                                         point_right_to_right_top_connor_index 0 of
                                    Inl e \<Rightarrow> Inl e
                                  | Inr segs3 \<Rightarrow>
                                      Inr (boundary_points,
                                           segs1 @ segs2 @
                                           [[near_point, left_top corners],
                                            [left_top corners, left_down corners],
                                            [left_down corners, right_down corners],
                                            [right_down corners, right_top corners],
                                            [right_top corners, far_point]] @
                                           segs3))))))"

subsection \<open>From the map to the stitched boundary\<close>

text \<open>\<open>p -= origin_point; p.SelfRotate(-origin_heading)\<close>\<close>

definition into_frame :: "Vec2d \<Rightarrow> real \<Rightarrow> Vec2d \<Rightarrow> Vec2d" where
  "into_frame origin_p origin_h p = SelfRotate (vec_sub p origin_p) (- origin_h)"

text \<open>
  What \<open>GetParkingBoundary\<close> has computed when the stitching is done: the origin, the
  corners of the spot in the parking frame, the projections of the top corners, the
  samples as the loop recorded them, the two edge polylines in the parking frame after
  the rescaling, the closed boundary polyline and the segments pushed.
\<close>

record BoundaryStage =
  stage_origin_heading :: real
  stage_origin_point :: Vec2d
  stage_corners :: ParkingCorners
  stage_average_l :: real
  stage_left_top_s :: real
  stage_right_top_s :: real
  stage_samples :: LaneSamples
  stage_right_lane_boundary :: "Vec2d list"
  stage_left_lane_boundary :: "Vec2d list"
  stage_boundary_points :: "Vec2d list"
  stage_segments :: "segment list"

text \<open>
  Lines 100 to 389 of \<open>GetParkingBoundary\<close>. The result is \<open>None\<close> when a projection fails
  (the function returns false), and the fault \<open>NoReturn\<close> when the sampling loop does not
  end. The six sample vectors have the same length, so the loops over one of them that
  index another are maps.
\<close>

definition build_boundary ::
  "OpenSpaceRoiDeciderConfig \<Rightarrow> ParkingSpaceInfo \<Rightarrow> Path \<Rightarrow> fault + BoundaryStage option" where
  "build_boundary config target_parking_spot nearby_path =
     (case points_at (polygon_points target_parking_spot) 3 of Inl e \<Rightarrow> Inl e | Inr left_top0 \<Rightarrow>
      case points_at (polygon_points target_parking_spot) 0 of Inl e \<Rightarrow> Inl e | Inr left_down0 \<Rightarrow>
      case points_at (polygon_points target_parking_spot) 2 of Inl e \<Rightarrow> Inl e | Inr right_top0 \<Rightarrow>
      case points_at (polygon_points target_parking_spot) 1 of Inl e \<Rightarrow> Inl e | Inr right_down0 \<Rightarrow>
      case GetProjection nearby_path left_top0 of None \<Rightarrow> Inr None | Some (left_top_s, left_top_l) \<Rightarrow>
      case GetProjection nearby_path right_top0 of None \<Rightarrow> Inr None | Some (right_top_s, right_top_l) \<Rightarrow>
        let average_l = (left_top_l + right_top_l) / 2;
            center_line_s = (left_top_s + right_top_s) / 2;
            start_s = center_line_s - roi_longitudinal_range config;
            end_s = center_line_s + roi_longitudinal_range config
        in case sample_lane config nearby_path start_s end_s of
             None \<Rightarrow> Inl NoReturn
           | Some sampled \<Rightarrow>
               let heading_vec = vec_sub right_top0 left_top0;
                   origin_h = Angle heading_vec;
                   origin_p = left_top0;
                   right_local = map (into_frame origin_p origin_h) (right_lane_boundary sampled);
                   left_local = map (into_frame origin_p origin_h) (left_lane_boundary sampled);
                   corners = \<lparr>left_top = into_frame origin_p origin_h left_top0,
                              left_down = into_frame origin_p origin_h left_down0,
                              right_down = into_frame origin_p origin_h right_down0,
                              right_top = into_frame origin_p origin_h right_top0\<rparr>
               in if average_l < 0 then
                    (case rescale_loop origin_h origin_p (- average_l) right_local
                            (center_lane_boundary sampled) (right_lane_road_width sampled) of
                       Inl e \<Rightarrow> Inl e
                     | Inr right_scaled \<Rightarrow>
                         (case stitch_right right_scaled left_local (center_lane_s sampled) corners
                                 left_top_s right_top_s of
                            Inl e \<Rightarrow> Inl e
                          | Inr (boundary_points, segs) \<Rightarrow>
                              Inr (Some \<lparr>stage_origin_heading = origin_h, stage_origin_point = origin_p,
                                stage_corners = corners, stage_average_l = average_l,
                                stage_left_top_s = left_top_s, stage_right_top_s = right_top_s,
                                stage_samples = sampled,
                                stage_right_lane_boundary = right_scaled,
                                stage_left_lane_boundary = left_local,
                                stage_boundary_points = boundary_points,
                                stage_segments = segs\<rparr>)))
                  else
                    (case rescale_loop origin_h origin_p average_l left_local
                            (center_lane_boundary sampled) (left_lane_road_width sampled) of
                       Inl e \<Rightarrow> Inl e
                     | Inr left_scaled \<Rightarrow>
                         (case stitch_left right_local left_scaled (center_lane_s sampled) corners
                                 left_top_s right_top_s of
                            Inl e \<Rightarrow> Inl e
                          | Inr (boundary_points, segs) \<Rightarrow>
                              Inr (Some \<lparr>stage_origin_heading = origin_h, stage_origin_point = origin_p,
                                stage_corners = corners, stage_average_l = average_l,
                                stage_left_top_s = left_top_s, stage_right_top_s = right_top_s,
                                stage_samples = sampled,
                                stage_right_lane_boundary = right_local,
                                stage_left_lane_boundary = left_scaled,
                                stage_boundary_points = boundary_points,
                                stage_segments = segs\<rparr>))))"

subsection \<open>The box, the vehicle check and the end pose\<close>

text \<open>\<open>std::minmax_element\<close> over the boundary points, once by \<open>x\<close> and once by \<open>y\<close>.\<close>

definition ROI_box :: "Vec2d list \<Rightarrow> fault + real list" where
  "ROI_box boundary_points =
     (case boundary_points of
        [] \<Rightarrow> Inl OutOfRange
      | p # ps \<Rightarrow>
          Inr [fold min (map vx ps) (vx p), fold max (map vx ps) (vx p),
               fold min (map vy ps) (vy p), fold max (map vy ps) (vy p)])"

definition vehicle_outside :: "Vec2d \<Rightarrow> real list \<Rightarrow> bool" where
  "vehicle_outside vehicle_xy box =
     (vx vehicle_xy < box ! 0 \<or> vx vehicle_xy > box ! 1 \<or>
      vy vehicle_xy < box ! 2 \<or> vy vehicle_xy > box ! 3)"

text \<open>
  The constant \<open>common::math::kMathEpsilon\<close> is not among the source files; the geometry
  library sets it to \<open>1e-10\<close>.
\<close>

definition kMathEpsilon :: real where
  "kMathEpsilon = 1 / 10 ^ 10"

definition end_pose_of ::
  "OpenSpaceRoiDeciderConfig \<Rightarrow> VehicleParam \<Rightarrow> ParkingCorners \<Rightarrow> fault + real list" where
  "end_pose_of config vehicle_params corners =
     (let parking_spot_heading = Angle (vec_sub (left_down corners) (left_top corners));
          end_x = (vx (left_top corners) + vx (right_top corners)) / 2;
          buffer = parking_depth_buffer config
      in if \<not> buffer \<ge> 0 then Inl CheckFailed
         else
           let top_to_down_distance = vy (left_top corners) - vy (left_down corners);
               end_y =
                 (if parking_spot_heading > kMathEpsilon then
                    (if parking_inwards config then
                       vy (left_down corners) -
                         (max (3 * - top_to_down_distance / 4) (front_edge_to_center vehicle_params) + buffer)
                     else
                       vy (left_down corners) -
                         (max (- top_to_down_distance / 4) (back_edge_to_center vehicle_params) + buffer))
                  else
                    (if parking_inwards config then
                       vy (left_down corners) +
                         (max (3 * top_to_down_distance / 4) (front_edge_to_center vehicle_params) + buffer)
                     else
                       vy (left_down corners) +
                         (max (top_to_down_distance / 4) (back_edge_to_center vehicle_params) + buffer)))
           in Inr [end_x, end_y,
                   (if parking_inwards config then parking_spot_heading
                    else NormalizeAngle (parking_spot_heading + pi)),
                   0])"

text \<open>
  \<open>GetParkingSpotFromMap\<close> only queries the map, the frame history and the lanes; its
  outcome for a frame is a parameter of the model (\<open>None\<close> when it returns false).
  The result of \<open>GetParkingBoundary\<close> is the value returned, the frame and the vector
  \<open>roi_parking_boundary\<close> as the call leaves them.
\<close>

definition GetParkingBoundary ::
  "OpenSpaceRoiDeciderConfig \<Rightarrow> VehicleParam \<Rightarrow> (Frame \<Rightarrow> (ParkingSpaceInfo \<times> Path) option)
   \<Rightarrow> Frame \<Rightarrow> segment list \<Rightarrow> fault + (bool \<times> Frame \<times> segment list)" where
  "GetParkingBoundary config vehicle_params GetParkingSpotFromMap frame roi_parking_boundary =
     (case GetParkingSpotFromMap frame of
        None \<Rightarrow> Inr (False, frame, roi_parking_boundary)
      | Some (target_parking_spot, nearby_path) \<Rightarrow>
          (case build_boundary config target_parking_spot nearby_path of
             Inl e \<Rightarrow> Inl e
           | Inr None \<Rightarrow> Inr (False, frame, roi_parking_boundary)
           | Inr (Some stage) \<Rightarrow>
               let frame1 = frame\<lparr>open_space_info := (open_space_info frame)
                              \<lparr>origin_heading := stage_origin_heading stage,
                               origin_point := stage_origin_point stage\<rparr>\<rparr>
               in case FuseLineSegments (roi_parking_boundary @ stage_segments stage) of
                    Inl e \<Rightarrow> Inl e
                  | Inr (fused, roi) \<Rightarrow>
                      if \<not> fused then Inr (False, frame1, roi)
                      else
                        (case ROI_box (stage_boundary_points stage) of
                           Inl e \<Rightarrow> Inl e
                         | Inr ROI_xy_boundary' \<Rightarrow>
                             let frame2 = frame1\<lparr>open_space_info := (open_space_info frame1)
                                            \<lparr>ROI_xy_boundary := ROI_xy_boundary'\<rparr>\<rparr>;
                                 vehicle_xy =
                                   into_frame (stage_origin_point stage) (stage_origin_heading stage)
                                     (mkVec2d (state_x (vehicle_state frame))
                                              (state_y (vehicle_state frame)))
                             in if vehicle_outside vehicle_xy ROI_xy_boundary'
                                then Inr (False, frame2, roi)
                                else
                                  (case end_pose_of config vehicle_params (stage_corners stage) of
                                     Inl e \<Rightarrow> Inl e
                                   | Inr pose \<Rightarrow>
                                       Inr (True,
                                            frame2\<lparr>open_space_info := (open_space_info frame2)
                                              \<lparr>open_space_end_pose :=
                                                 open_space_end_pose (open_space_info frame2) @ pose\<rparr>\<rparr>,
                                            roi)))))"

section \<open>Process\<close>

datatype ErrorCode = OK | PLANNING_ERROR

datatype Status = Status ErrorCode string

text \<open>The frame pointer is an option: \<open>None\<close> is the null pointer.\<close>

definition Process ::
  "OpenSpaceRoiDeciderConfig \<Rightarrow> VehicleParam \<Rightarrow> (Frame \<Rightarrow> (ParkingSpaceInfo \<times> Path) option)
   \<Rightarrow> (Box2d \<Rightarrow> Vec2d \<Rightarrow> real) \<Rightarrow> Frame option \<Rightarrow> fault + (Status \<times> Frame option)" where
  "Process config vehicle_params GetParkingSpotFromMap box_distance frame_ptr =
     (case frame_ptr of
        None \<Rightarrow>
          Inr (Status PLANNING_ERROR ''Invalid frame, fail to process the OpenSpaceRoiDecider.'', None)
      | Some frame \<Rightarrow>
          (case routing_parking_space_id frame of
             None \<Rightarrow> Inr (Status PLANNING_ERROR ''Failed to get parking space id from routing'', Some frame)
           | Some target_parking_spot_id \<Rightarrow>
               (case GetParkingBoundary config vehicle_params GetParkingSpotFromMap frame [] of
                  Inl e \<Rightarrow> Inl e
                | Inr (got, frame1, roi_parking_boundary) \<Rightarrow>
                    if \<not> got
                    then Inr (Status PLANNING_ERROR ''Fail to get parking boundary from map'', Some frame1)
                    else
                      (case FormulateBoundaryConstraints config box_distance roi_parking_boundary frame1 of
                         Inl e \<Rightarrow> Inl e
                       | Inr (formulated, frame2) \<Rightarrow>
                           if \<not> formulated
                           then Inr (Status PLANNING_ERROR ''Fail to formulate boundary constraints'',
                                     Some frame2)
                           else Inr (Status OK [], Some frame2)))))"

section \<open>Notions used in the statements\<close>

text \<open>
  A joint that the fuser steps over without failing: the joint points are farther apart
  than \<open>1e-8\<close>, or both segments have two points or more and the turn is not convex;
  and a vector all of whose joints are such.
\<close>

definition stable_joint :: "segment \<Rightarrow> segment \<Rightarrow> bool" where
  "stable_joint cur next =
     (cur \<noteq> [] \<and> next \<noteq> [] \<and>
      (DistanceTo (last cur) (hd next) > kEpsilon \<or>
       (2 \<le> length cur \<and> 2 \<le> length next \<and>
        \<not> CrossProd (cur ! (length cur - 2)) (last cur) (next ! 1) < 0)))"

fun all_stable :: "segment list \<Rightarrow> bool" where
  "all_stable (a # b # xs) = (stable_joint a b \<and> all_stable (b # xs))"
| "all_stable xs = True"

text \<open>
  An edge is \<open>exact\<close> when the tolerance \<open>1e-5\<close> does not change its line: an edge the
  code takes as vertical is vertical, and one it takes as horizontal is horizontal.
\<close>

definition exact_edge :: "Vec2d \<Rightarrow> Vec2d \<Rightarrow> bool" where
  "exact_edge v1 v2 =
     (if \<bar>vx v1 - vx v2\<bar> < kEpsilon_hyperplane then vx v1 = vx v2
      else if \<bar>vy v1 - vy v2\<bar> < kEpsilon_hyperplane then vy v1 = vy v2
      else True)"

definition row_dot :: "real list \<Rightarrow> Vec2d \<Rightarrow> real" where
  "row_dot row p = row ! 0 * vx p + row ! 1 * vy p"

text \<open>The first row of piece \<open>i\<close> in the stacked matrices: the sum of the edge counts before it.\<close>

definition rows_before :: "int list \<Rightarrow> nat \<Rightarrow> nat" where
  "rows_before edges i = sum_list (map nat (take i edges))"

text \<open>
  A point is strictly inside a closed convex loop given in clockwise order when it lies
  strictly to the right of every edge (the cross product is negative), and strictly
  inside one given in counter-clockwise order when it lies strictly to the left of
  every edge.
\<close>

definition strictly_inside_cw :: "Vec2d list \<Rightarrow> Vec2d \<Rightarrow> bool" where
  "strictly_inside_cw loop p =
     list_all (\<lambda>j. CrossProd (loop ! j) (loop ! Suc j) p < 0) [0..<length loop - 1]"

definition strictly_inside_ccw :: "Vec2d list \<Rightarrow> Vec2d \<Rightarrow> bool" where
  "strictly_inside_ccw loop p =
     list_all (\<lambda>j. CrossProd (loop ! j) (loop ! Suc j) p > 0) [0..<length loop - 1]"

definition exact_edges :: "Vec2d list \<Rightarrow> bool" where
  "exact_edges loop = list_all (\<lambda>j. exact_edge (loop ! j) (loop ! Suc j)) [0..<length loop - 1]"

text \<open>
  A station is recorded when the heading has turned by at least the minimum angle since
  the station visited before it, or when it is \<open>start_s\<close> or \<open>end_s\<close>.
\<close>

definition recorded_at ::
  "OpenSpaceRoiDeciderConfig \<Rightarrow> Path \<Rightarrow> real \<Rightarrow> real \<Rightarrow> SampleState \<Rightarrow> bool" where
  "recorded_at config path start_s end_s st =
     (\<bar>NormalizeAngle (heading (GetSmoothPoint path (check_point_s st)) - last_check_point_heading st)\<bar>
        \<ge> roi_linesegment_min_angle config \<or>
      check_point_s st = start_s \<or> check_point_s st = end_s)"

text \<open>
  The point at distance \<open>offset\<close> from the centerline point at arc length \<open>s\<close>, in the
  direction of the heading turned by \<open>turn\<close>; and the samples that all belong to their
  stations.
\<close>

definition edge_point :: "Path \<Rightarrow> real \<Rightarrow> real \<Rightarrow> real \<Rightarrow> Vec2d" where
  "edge_point path s turn offset =
     vec_add (mkVec2d (offset * cos (heading (GetSmoothPoint path s) + turn))
                      (offset * sin (heading (GetSmoothPoint path s) + turn)))
             (Vec2d.truncate (GetSmoothPoint path s))"

definition consistent_samples :: "Path \<Rightarrow> LaneSamples \<Rightarrow> bool" where
  "consistent_samples path smp =
     (center_lane_boundary smp = map (\<lambda>s. Vec2d.truncate (GetSmoothPoint path s)) (center_lane_s smp) \<and>
      left_lane_road_width smp = map (GetRoadLeftWidth path) (center_lane_s smp) \<and>
      right_lane_road_width smp = map (GetRoadRightWidth path) (center_lane_s smp) \<and>
      right_lane_boundary smp =
        map (\<lambda>s. edge_point path s (- (pi / 2)) (GetRoadRightWidth path s)) (center_lane_s smp) \<and>
      left_lane_boundary smp =
        map (\<lambda>s. edge_point path s (pi / 2) (GetRoadLeftWidth path s)) (center_lane_s smp))"


section \<open>Example inputs\<close>

text \<open>An example frame: one perception obstacle, the box of side 2 around \<open>(5, 5)\<close>.\<close>

definition example_config :: OpenSpaceRoiDeciderConfig where
  "example_config =
     \<lparr>roi_longitudinal_range = 10, roi_linesegment_min_angle = 1 / 10, roi_linesegment_length = 30,
      parking_depth_buffer = 0, parking_inwards = False, enable_perception_obstacles = True,
      perception_obstacle_buffer = 0, perception_obstacle_filtering_distance = 1000\<rparr>"

definition example_info :: OpenSpaceInfo where
  "example_info =
     \<lparr>origin_heading = 0, origin_point = mkVec2d 0 0, ROI_xy_boundary = [- 10, 10, - 10, 10],
      open_space_end_pose = [0, 0, 0, 0], obstacles_vertices_vec = [], obstacles_edges_num = [],
      obstacles_num = 0, obstacles_A = [], obstacles_b = []\<rparr>"

definition example_frame :: Frame where
  "example_frame =
     \<lparr>open_space_info = example_info,
      vehicle_state = \<lparr>state_x = 0, state_y = 0, state_heading = 0\<rparr>,
      obstacles_by_frame = [\<lparr>IsVirtual = False, PerceptionBoundingBox =
        \<lparr>center = mkVec2d 5 5, box_length = 2, box_width = 2, box_heading = 0\<rparr>\<rparr>],
      routing_parking_space_id = None\<rparr>"

text \<open>Example inputs: a straight lane along the \<open>x\<close> axis, and a lane that turns steadily.\<close>

definition straight_path :: Path where
  "straight_path =
     \<lparr>GetSmoothPoint = (\<lambda>s. \<lparr>vx = s, vy = 0, heading = 0\<rparr>),
      GetRoadLeftWidth = (\<lambda>s. 2), GetRoadRightWidth = (\<lambda>s. 2),
      GetProjection = (\<lambda>p. Some (vx p, vy p))\<rparr>"


definition config10 :: OpenSpaceRoiDeciderConfig where
  "config10 =
     \<lparr>roi_longitudinal_range = 10, roi_linesegment_min_angle = 1 / 10, roi_linesegment_length = 30,
      parking_depth_buffer = 0, parking_inwards = False, enable_perception_obstacles = False,
      perception_obstacle_buffer = 0, perception_obstacle_filtering_distance = 1000\<rparr>"

definition config1 :: OpenSpaceRoiDeciderConfig where
  "config1 = config10\<lparr>roi_longitudinal_range := 1\<rparr>"


text \<open>Example inputs: a spot on the right and a spot on the left of the straight lane.\<close>

definition right_spot :: ParkingSpaceInfo where
  "right_spot = \<lparr>polygon_points = [mkVec2d 9 (- 7), mkVec2d 12 (- 7), mkVec2d 12 (- 2), mkVec2d 9 (- 2)]\<rparr>"


definition right_stage :: BoundaryStage where
  "right_stage =
     \<lparr>stage_origin_heading = 0, stage_origin_point = mkVec2d 9 (- 2),
      stage_corners = \<lparr>left_top = mkVec2d 0 0, left_down = mkVec2d 0 (- 5),
                       right_down = mkVec2d 3 (- 5), right_top = mkVec2d 3 0\<rparr>,
      stage_average_l = - 2, stage_left_top_s = 9, stage_right_top_s = 12,
      stage_samples =
        \<lparr>left_lane_boundary = [mkVec2d (1 / 2) 2, mkVec2d (41 / 2) 2],
         right_lane_boundary = [mkVec2d (1 / 2) (- 2), mkVec2d (41 / 2) (- 2)],
         center_lane_boundary = [mkVec2d (1 / 2) 0, mkVec2d (41 / 2) 0],
         center_lane_s = [1 / 2, 41 / 2], left_lane_road_width = [2, 2],
         right_lane_road_width = [2, 2]\<rparr>,
      stage_right_lane_boundary = [mkVec2d (- (17 / 2)) 0, mkVec2d (23 / 2) 0],
      stage_left_lane_boundary = [mkVec2d (- (17 / 2)) 4, mkVec2d (23 / 2) 4],
      stage_boundary_points =
        [mkVec2d 0 0, mkVec2d 0 (- 5), mkVec2d 3 (- 5), mkVec2d 3 0, mkVec2d (23 / 2) 0,
         mkVec2d (23 / 2) 4, mkVec2d (- (17 / 2)) 4, mkVec2d (- (17 / 2)) 0],
      stage_segments =
        [[mkVec2d (- (17 / 2)) 0, mkVec2d 0 0], [mkVec2d 0 0, mkVec2d 0 (- 5)],
         [mkVec2d 0 (- 5), mkVec2d 3 (- 5)], [mkVec2d 3 (- 5), mkVec2d 3 0],
         [mkVec2d 3 0, mkVec2d (23 / 2) 0], [mkVec2d (23 / 2) 4, mkVec2d (- (17 / 2)) 4]]\<rparr>"


text \<open>A frame whose vehicle is 100 m to the side of the lane.\<close>

definition outside_frame :: Frame where
  "outside_frame =
     \<lparr>open_space_info =
        \<lparr>origin_heading = 0, origin_point = mkVec2d 0 0, ROI_xy_boundary = [],
         open_space_end_pose = [], obstacles_vertices_vec = [], obstacles_edges_num = [],
         obstacles_num = 0, obstacles_A = [], obstacles_b = []\<rparr>,
      vehicle_state = \<lparr>state_x = 5, state_y = 100, state_heading = 0\<rparr>,
      obstacles_by_frame = [],
      routing_parking_space_id = Some ''spot''\<rparr>"

section \<open>Properties of the segment fuser\<close>

subsection \<open>Deciding the distance test\<close>

lemma DistanceTo_gt_kEpsilon:
  "(DistanceTo p q > kEpsilon) = (kEpsilon\<^sup>2 < (vx p - vx q)\<^sup>2 + (vy p - vy q)\<^sup>2)"
proof -
  have e: "0 \<le> kEpsilon" by (simp add: kEpsilon_def)
  have "kEpsilon = sqrt (kEpsilon\<^sup>2)" using e by simp
  then have "(DistanceTo p q > kEpsilon) =
      (sqrt (kEpsilon\<^sup>2) < sqrt ((vx p - vx q)\<^sup>2 + (vy p - vy q)\<^sup>2))"
    by (simp add: DistanceTo_def)
  then show ?thesis by (simp only: real_sqrt_less_iff)
qed

lemma far_eval:
  "(kEpsilon < DistanceTo p q) = (1 / 10 ^ 16 < (vx p - vx q)\<^sup>2 + (vy p - vy q)\<^sup>2)"
  by (simp add: DistanceTo_gt_kEpsilon) (simp add: kEpsilon_def power_divide)

lemma near_eval:
  "(DistanceTo p q \<le> kEpsilon) = ((vx p - vx q)\<^sup>2 + (vy p - vy q)\<^sup>2 \<le> 1 / 10 ^ 16)"
  using far_eval[of p q] by (simp add: not_less[symmetric] del: not_less)

lemmas fuse_eval = far_eval near_eval CrossProd_def FuseLineSegments_def mkVec2d_def

subsection \<open>One pass of the loop\<close>

text \<open>
  C5 (amended). At a loop state with non-empty current and next segment:
  when the last point of the current segment and the first point of the next one are
  farther apart than \<open>1e-8\<close>, the iterator advances and nothing changes; when they
  coincide within \<open>1e-8\<close> and one of the two segments has fewer than two points, the call
  returns false with the vector as it is; when they coincide, both have two points or
  more and the cross product of (second-to-last point of the current segment, joint
  point, second point of the next segment) is negative, the second point of the next
  segment is appended to the current one, the first two points of the next segment are
  erased, the next segment is erased from the vector when that empties it, and the loop
  goes on with the same current segment; when the cross product is not negative the
  iterator advances and nothing changes. For two segments of two points each the
  whole call therefore returns true with one three-point segment exactly when the joint
  coincides and the cross product is negative, and with both segments unchanged
  otherwise. A one-point segment is rejected only at a coincident joint.
\<close>

theorem FuseLineSegments_merge_rule:
  "(cur \<noteq> [] \<and> next \<noteq> [] \<longrightarrow>
     (DistanceTo (last cur) (hd next) > kEpsilon \<longrightarrow>
        fuse_loop pre cur (next # rest) = fuse_loop (pre @ [cur]) next rest) \<and>
     (DistanceTo (last cur) (hd next) \<le> kEpsilon \<and> (length cur < 2 \<or> length next < 2) \<longrightarrow>
        fuse_loop pre cur (next # rest) = Inr (False, pre @ cur # next # rest)) \<and>
     (DistanceTo (last cur) (hd next) \<le> kEpsilon \<and> 2 \<le> length cur \<and> 2 \<le> length next \<and>
      CrossProd (cur ! (length cur - 2)) (last cur) (next ! 1) < 0 \<longrightarrow>
        fuse_loop pre cur (next # rest) =
          fuse_loop pre (cur @ [next ! 1])
            (if drop 2 next = [] then rest else drop 2 next # rest)) \<and>
     (DistanceTo (last cur) (hd next) \<le> kEpsilon \<and> 2 \<le> length cur \<and> 2 \<le> length next \<and>
      \<not> CrossProd (cur ! (length cur - 2)) (last cur) (next ! 1) < 0 \<longrightarrow>
        fuse_loop pre cur (next # rest) = fuse_loop (pre @ [cur]) next rest)) \<and>
   FuseLineSegments [[a, b], [c, d]] =
     Inr (True, if DistanceTo b c \<le> kEpsilon \<and> CrossProd a b d < 0 then [[a, b, d]]
                else [[a, b], [c, d]])"
  by (simp add: FuseLineSegments_def Let_def)

theorem FuseLineSegments_merge_rule_witness:
  "DistanceTo (last [mkVec2d 0 0, mkVec2d 1 0]) (hd [mkVec2d 1 0, mkVec2d 1 (- 1)]) \<le> kEpsilon \<and>
   CrossProd (mkVec2d 0 0) (mkVec2d 1 0) (mkVec2d 1 (- 1)) < 0 \<and>
   fuse_loop [] [mkVec2d 0 0, mkVec2d 1 0] ([mkVec2d 1 0, mkVec2d 1 (- 1)] # []) =
     fuse_loop [] [mkVec2d 0 0, mkVec2d 1 0, mkVec2d 1 (- 1)] [] \<and>
   DistanceTo (last [mkVec2d 0 0, mkVec2d 1 0]) (hd [mkVec2d 1 0]) \<le> kEpsilon \<and>
   fuse_loop [] [mkVec2d 0 0, mkVec2d 1 0] ([mkVec2d 1 0] # []) =
     Inr (False, [[mkVec2d 0 0, mkVec2d 1 0], [mkVec2d 1 0]]) \<and>
   DistanceTo (last [mkVec2d 0 0, mkVec2d 1 0]) (hd [mkVec2d 3 0, mkVec2d 4 0]) > kEpsilon \<and>
   fuse_loop [] [mkVec2d 0 0, mkVec2d 1 0] ([mkVec2d 3 0, mkVec2d 4 0] # []) =
     fuse_loop [[mkVec2d 0 0, mkVec2d 1 0]] [mkVec2d 3 0, mkVec2d 4 0] [] \<and>
   \<not> CrossProd (mkVec2d 0 0) (mkVec2d 1 0) (mkVec2d 1 1) < 0 \<and>
   fuse_loop [] [mkVec2d 0 0, mkVec2d 1 0] ([mkVec2d 1 0, mkVec2d 1 1] # []) =
     fuse_loop [[mkVec2d 0 0, mkVec2d 1 0]] [mkVec2d 1 0, mkVec2d 1 1] []"
  using
    FuseLineSegments_merge_rule[of "[mkVec2d 0 0, mkVec2d 1 0]" "[mkVec2d 1 0, mkVec2d 1 (- 1)]" "[]" "[]"]
    FuseLineSegments_merge_rule[of "[mkVec2d 0 0, mkVec2d 1 0]" "[mkVec2d 1 0]" "[]" "[]"]
    FuseLineSegments_merge_rule[of "[mkVec2d 0 0, mkVec2d 1 0]" "[mkVec2d 3 0, mkVec2d 4 0]" "[]" "[]"]
    FuseLineSegments_merge_rule[of "[mkVec2d 0 0, mkVec2d 1 0]" "[mkVec2d 1 0, mkVec2d 1 1]" "[]" "[]"]
  by (simp add: fuse_eval)

text \<open>
  C5 as stated fails in its last part: a one-point segment that the walk meets at a joint
  that does not coincide is stepped over, and the call returns true.
\<close>

theorem FuseLineSegments_single_point_not_rejected:
  "length [mkVec2d 0 0] = 1 \<and>
   FuseLineSegments [[mkVec2d 0 0], [mkVec2d 1 0, mkVec2d 2 0]] =
     Inr (True, [[mkVec2d 0 0], [mkVec2d 1 0, mkVec2d 2 0]])"
  by (simp add: fuse_eval)

subsection \<open>When the call returns false\<close>

lemma fuse_loop_false_joint:
  "fuse_loop pre cur rest = Inr (False, out) \<Longrightarrow>
   \<exists>before c n after. out = before @ c # n # after \<and> c \<noteq> [] \<and> n \<noteq> [] \<and>
      DistanceTo (last c) (hd n) \<le> kEpsilon \<and> (length c < 2 \<or> length n < 2)"
proof (induction pre cur rest rule: fuse_loop.induct)
  case (1 pre cur)
  then show ?case by simp
next
  case (2 pre cur "next" rest)
  show ?case
  proof (cases "\<not> (cur = [] \<or> next = []) \<and> \<not> DistanceTo (last cur) (hd next) > kEpsilon
                \<and> (length cur < 2 \<or> length next < 2)")
    case True
    with "2.prems" have "out = pre @ cur # next # rest" by (simp split: if_splits)
    with True show ?thesis
      by (intro exI[of _ pre] exI[of _ cur] exI[of _ "next"] exI[of _ rest]) auto
  next
    case False
    with 2 show ?thesis by (auto simp: Let_def split: if_splits)
  qed
qed

lemma fuse_loop_keeps_prefix:
  "fuse_loop pre cur rest = Inr (b, out) \<Longrightarrow> take (length pre) out = pre"
proof (induction pre cur rest rule: fuse_loop.induct)
  case (1 pre cur)
  then show ?case by auto
next
  case (2 pre cur "next" rest)
  then show ?case
    by (auto simp: Let_def split: if_splits dest: arg_cong[where f = "take (length pre)"])
qed

text \<open>
  The walk never returns true from a state that has, at or after the current segment, two
  adjacent non-empty segments whose joint points coincide within \<open>1e-8\<close> and one of which
  has fewer than two points: until the walk reaches the pair, the last point of its first
  segment stays the last point of the segment before the second one, also when a merge
  moves it into the segment before.
\<close>

lemma fuse_loop_short_joint:
  "last (cur # rest1) \<noteq> [] \<Longrightarrow> n \<noteq> [] \<Longrightarrow>
   DistanceTo (last (last (cur # rest1))) (hd n) \<le> kEpsilon \<Longrightarrow>
   length (last (cur # rest1)) < 2 \<or> length n < 2 \<Longrightarrow>
   (\<forall>out. fuse_loop pre cur (rest1 @ n # after) \<noteq> Inr (True, out)) \<and>
   (list_all (\<lambda>s. s \<noteq> []) (cur # rest1) \<longrightarrow>
      (\<exists>out. fuse_loop pre cur (rest1 @ n # after) = Inr (False, out)))"
proof (induction "sum_list (map length rest1) + length rest1" arbitrary: pre cur rest1
       rule: less_induct)
  case less
  show ?case
  proof (cases rest1)
    case Nil
    with less.prems show ?thesis by auto
  next
    case (Cons nx rest2)
    have step: "fuse_loop pre cur (rest1 @ n # after) = fuse_loop pre cur (nx # rest2 @ n # after)"
      using Cons by simp
    have smaller: "sum_list (map length rest2) + length rest2
        < sum_list (map length rest1) + length rest1"
      using Cons by simp
    have adv: "(\<forall>out. fuse_loop (pre @ [cur]) nx (rest2 @ n # after) \<noteq> Inr (True, out)) \<and>
       (list_all (\<lambda>s. s \<noteq> []) (nx # rest2) \<longrightarrow>
          (\<exists>out. fuse_loop (pre @ [cur]) nx (rest2 @ n # after) = Inr (False, out)))"
      using less.hyps[OF smaller, of nx "pre @ [cur]"] less.prems Cons by simp
    show ?thesis
    proof (cases "cur = [] \<or> nx = []")
      case True
      with Cons show ?thesis unfolding step by auto
    next
      case ne: False
      show ?thesis
      proof (cases "DistanceTo (last cur) (hd nx) > kEpsilon")
        case True
        with ne adv Cons show ?thesis unfolding step by simp
      next
        case near: False
        show ?thesis
        proof (cases "length cur < 2 \<or> length nx < 2")
          case True
          with near ne show ?thesis unfolding step by simp
        next
          case long: False
          show ?thesis
          proof (cases "CrossProd (cur ! (length cur - 2)) (last cur) (nx ! 1) < 0")
            case False
            with long near ne adv Cons show ?thesis unfolding step by simp
          next
            case merge: True
            show ?thesis
            proof (cases "drop 2 nx = []")
              case True
              then have l2: "length nx = 2" using long by simp
              then have lst: "last nx = nx ! 1" using ne by (auto simp: last_conv_nth)
              have sm: "sum_list (map length rest2) + length rest2
                 < sum_list (map length rest1) + length rest1" using Cons by simp
              have "(\<forall>out. fuse_loop pre (cur @ [nx ! 1]) (rest2 @ n # after) \<noteq> Inr (True, out)) \<and>
                 (list_all (\<lambda>s. s \<noteq> []) ((cur @ [nx ! 1]) # rest2) \<longrightarrow>
                 (\<exists>out. fuse_loop pre (cur @ [nx ! 1]) (rest2 @ n # after) = Inr (False, out)))"
                using less.hyps[OF sm, of "cur @ [nx ! 1]" pre] less.prems Cons lst l2
                by (cases rest2) auto
              with True merge long near ne Cons show ?thesis unfolding step by (simp add: Let_def)
            next
              case False
              have sm: "sum_list (map length (drop 2 nx # rest2)) + length (drop 2 nx # rest2)
                 < sum_list (map length rest1) + length rest1" using Cons long by auto
              have lst: "last (drop 2 nx) = last nx" using False by simp
              have "(\<forall>out. fuse_loop pre (cur @ [nx ! 1]) ((drop 2 nx # rest2) @ n # after) \<noteq> Inr (True, out)) \<and>
                 (list_all (\<lambda>s. s \<noteq> []) ((cur @ [nx ! 1]) # drop 2 nx # rest2) \<longrightarrow>
                 (\<exists>out. fuse_loop pre (cur @ [nx ! 1]) ((drop 2 nx # rest2) @ n # after) = Inr (False, out)))"
                using less.hyps[OF sm, of "cur @ [nx ! 1]" pre] less.prems Cons lst False long
                by (cases rest2) auto
              with False merge long near ne Cons show ?thesis unfolding step by (simp add: Let_def)
            qed
          qed
        qed
      qed
    qed
  qed
qed


text \<open>
  A one-point segment ahead of the walk, whose point is farther than \<open>1e-8\<close> from the
  last point of the segment before it and from the first point of the segment after it,
  is in the vector when the walk returns.
\<close>

lemma fuse_loop_prefix_in_result:
  "fuse_loop pre cur rest = Inr (r, out) \<Longrightarrow> s \<in> set pre \<Longrightarrow> s \<in> set out"
proof -
  assume f: "fuse_loop pre cur rest = Inr (r, out)" and m: "s \<in> set pre"
  from f have "take (length pre) out = pre" by (rule fuse_loop_keeps_prefix)
  then have "set pre \<subseteq> set out" by (metis set_take_subset)
  with m show ?thesis by auto
qed

lemma fuse_loop_far_single_stays:
  "fuse_loop pre cur (rest1 @ [p] # after) = Inr (r, out) \<Longrightarrow>
   DistanceTo (last (last (cur # rest1))) p > kEpsilon \<Longrightarrow>
   (after \<noteq> [] \<longrightarrow> DistanceTo p (hd (hd after)) > kEpsilon) \<Longrightarrow>
   [p] \<in> set out"
proof (induction "sum_list (map length rest1) + length rest1" arbitrary: pre cur rest1
       rule: less_induct)
  case less
  show ?case
  proof (cases rest1)
    case Nil
    with less.prems have f: "fuse_loop pre cur ([p] # after) = Inr (r, out)"
      and far: "DistanceTo (last cur) p > kEpsilon" by simp_all
    then have ne: "cur \<noteq> []" by (auto split: if_splits)
    with f far have g: "fuse_loop (pre @ [cur]) [p] after = Inr (r, out)" by simp
    show ?thesis
    proof (cases after)
      case Nil
      with g show ?thesis by auto
    next
      case (Cons n a)
      with less.prems(3) have "DistanceTo p (hd n) > kEpsilon" by simp
      with g Cons have "fuse_loop (pre @ [cur] @ [[p]]) n a = Inr (r, out)"
        by (auto split: if_splits)
      then show ?thesis by (rule fuse_loop_prefix_in_result) simp
    qed
  next
    case (Cons nx rest2)
    have step: "fuse_loop pre cur (rest1 @ [p] # after) = fuse_loop pre cur (nx # rest2 @ [p] # after)"
      using Cons by simp
    have smaller: "sum_list (map length rest2) + length rest2
        < sum_list (map length rest1) + length rest1"
      using Cons by simp
    have adv: "fuse_loop (pre @ [cur]) nx (rest2 @ [p] # after) = Inr (r, out) \<Longrightarrow> [p] \<in> set out"
      using less.hyps[OF smaller, of "pre @ [cur]" nx] less.prems Cons by simp
    from less.prems(1) have f: "fuse_loop pre cur (nx # rest2 @ [p] # after) = Inr (r, out)"
      unfolding step .
    then have ne: "cur \<noteq> []" "nx \<noteq> []" by (auto split: if_splits)
    show ?thesis
    proof (cases "DistanceTo (last cur) (hd nx) > kEpsilon")
      case True
      with ne f adv show ?thesis by simp
    next
      case near: False
      show ?thesis
      proof (cases "length cur < 2 \<or> length nx < 2")
        case True
        with near ne f show ?thesis by auto
      next
        case long: False
        show ?thesis
        proof (cases "CrossProd (cur ! (length cur - 2)) (last cur) (nx ! 1) < 0")
          case False
          with long near ne f adv show ?thesis by simp
        next
          case merge: True
          show ?thesis
          proof (cases "drop 2 nx = []")
            case True
            then have l2: "length nx = 2" using long by simp
            then have lst: "last nx = nx ! 1" using ne by (auto simp: last_conv_nth)
            from True merge long near ne f
            have g: "fuse_loop pre (cur @ [nx ! 1]) (rest2 @ [p] # after) = Inr (r, out)"
              by (simp add: Let_def)
            have "DistanceTo (last (last ((cur @ [nx ! 1]) # rest2))) p > kEpsilon"
              using less.prems(2) Cons lst by (cases rest2) auto
            from less.hyps[OF smaller g this less.prems(3)] show ?thesis .
          next
            case False
            have sm: "sum_list (map length (drop 2 nx # rest2)) + length (drop 2 nx # rest2)
               < sum_list (map length rest1) + length rest1" using Cons long by auto
            have lst: "last (drop 2 nx) = last nx" using False by simp
            from False merge long near ne f
            have g: "fuse_loop pre (cur @ [nx ! 1]) ((drop 2 nx # rest2) @ [p] # after) = Inr (r, out)"
              by (simp add: Let_def)
            have "DistanceTo (last (last ((cur @ [nx ! 1]) # drop 2 nx # rest2))) p > kEpsilon"
              using less.prems(2) Cons lst by (cases rest2) auto
            from less.hyps[OF sm g this less.prems(3)] show ?thesis .
          qed
        qed
      qed
    qed
  qed
qed

text \<open>
  C10 (amended). When \<open>FuseLineSegments\<close> returns false, the vector as the call leaves it
  (the vector passed, with the merges made before the return) holds two adjacent
  non-empty segments whose joint points coincide within \<open>1e-8\<close> and one of which has
  fewer than two points. The vector passed need not hold such a pair, since a merge can
  leave a one-point segment: \<open>[[(0,0),(1,0)], [(1,0),(1,-1),(1,-1)]]\<close> has no segment of
  fewer than two points and the call returns false, leaving
  \<open>[[(0,0),(1,0),(1,-1)], [(1,-1)]]\<close>.
  Conversely, when the vector passed holds two adjacent non-empty segments whose joint
  points coincide within \<open>1e-8\<close> and one of which has fewer than two points (so also a
  one-point segment, last or not, whose point coincides with the last point of its
  predecessor), the call never returns true, and it returns false when no segment before
  the pair is empty.
  A one-point current segment whose point is farther than \<open>1e-8\<close> from the first point of
  its successor is stepped over: the loop goes on at the successor, the call returns
  what the rest of the walk returns, and the segment stands unchanged at its place in
  the vector. A one-point current segment that is the last one ends the loop with the
  value true and the vector unchanged. A one-point segment of the vector passed whose
  point is farther than \<open>1e-8\<close> from the last point of its predecessor and from the first
  point of its successor, where it has them, is a segment of the vector when the call
  returns, with true or with false.
\<close>

theorem FuseLineSegments_false_only_at_short_joint:
  "(FuseLineSegments segs = Inr (False, out) \<longrightarrow>
      (\<exists>before c n after. out = before @ c # n # after \<and> c \<noteq> [] \<and> n \<noteq> [] \<and>
         DistanceTo (last c) (hd n) \<le> kEpsilon \<and> (length c < 2 \<or> length n < 2))) \<and>
   FuseLineSegments [[mkVec2d 0 0, mkVec2d 1 0], [mkVec2d 1 0, mkVec2d 1 (- 1), mkVec2d 1 (- 1)]] =
     Inr (False, [[mkVec2d 0 0, mkVec2d 1 0, mkVec2d 1 (- 1)], [mkVec2d 1 (- 1)]]) \<and>
   (c' \<noteq> [] \<and> n' \<noteq> [] \<and> DistanceTo (last c') (hd n') \<le> kEpsilon \<and>
    (length c' < 2 \<or> length n' < 2) \<longrightarrow>
      (\<forall>out. FuseLineSegments (before' @ c' # n' # after') \<noteq> Inr (True, out)) \<and>
      (list_all (\<lambda>s. s \<noteq> []) before' \<longrightarrow>
         (\<exists>out. FuseLineSegments (before' @ c' # n' # after') = Inr (False, out)))) \<and>
   (nx \<noteq> [] \<and> DistanceTo p (hd nx) > kEpsilon \<longrightarrow>
      fuse_loop pre [p] (nx # rest) = fuse_loop (pre @ [[p]]) nx rest \<and>
      (fuse_loop pre [p] (nx # rest) = Inr (r, out') \<longrightarrow>
         take (Suc (length pre)) out' = pre @ [[p]])) \<and>
   fuse_loop pre [p] [] = Inr (True, pre @ [[p]]) \<and>
   ((ahead \<noteq> [] \<longrightarrow> DistanceTo (last (last ahead)) q > kEpsilon) \<and>
    (behind \<noteq> [] \<longrightarrow> DistanceTo q (hd (hd behind)) > kEpsilon) \<and>
    FuseLineSegments (ahead @ [q] # behind) = Inr (r', out'') \<longrightarrow>
      [q] \<in> set out'')"
proof (intro conjI impI)
  assume "FuseLineSegments segs = Inr (False, out)"
  then obtain cur rest where "fuse_loop [] cur rest = Inr (False, out)"
    by (auto simp: FuseLineSegments_def split: list.splits)
  then show "\<exists>before c n after. out = before @ c # n # after \<and> c \<noteq> [] \<and> n \<noteq> [] \<and>
         DistanceTo (last c) (hd n) \<le> kEpsilon \<and> (length c < 2 \<or> length n < 2)"
    by (rule fuse_loop_false_joint)
next
  show "FuseLineSegments [[mkVec2d 0 0, mkVec2d 1 0], [mkVec2d 1 0, mkVec2d 1 (- 1), mkVec2d 1 (- 1)]] =
     Inr (False, [[mkVec2d 0 0, mkVec2d 1 0, mkVec2d 1 (- 1)], [mkVec2d 1 (- 1)]])"
    by (simp add: fuse_eval Let_def)
next
  assume a: "c' \<noteq> [] \<and> n' \<noteq> [] \<and> DistanceTo (last c') (hd n') \<le> kEpsilon \<and>
    (length c' < 2 \<or> length n' < 2)"
  obtain cur rest1 where cr: "before' @ [c'] = cur # rest1" by (cases before') auto
  then have l: "last (cur # rest1) = c'" by (metis last_snoc)
  have e: "FuseLineSegments (before' @ c' # n' # after') = fuse_loop [] cur (rest1 @ n' # after')"
  proof -
    have "before' @ c' # n' # after' = (before' @ [c']) @ n' # after'" by simp
    also have "\<dots> = cur # rest1 @ n' # after'" unfolding cr by simp
    finally have eq: "before' @ c' # n' # after' = cur # rest1 @ n' # after'" .
    show ?thesis unfolding FuseLineSegments_def eq by simp
  qed
  have k: "(\<forall>out. fuse_loop [] cur (rest1 @ n' # after') \<noteq> Inr (True, out)) \<and>
     (list_all (\<lambda>s. s \<noteq> []) (cur # rest1) \<longrightarrow>
        (\<exists>out. fuse_loop [] cur (rest1 @ n' # after') = Inr (False, out)))"
    by (rule fuse_loop_short_joint) (use a l in simp_all)
  from k show "\<forall>out. FuseLineSegments (before' @ c' # n' # after') \<noteq> Inr (True, out)"
    unfolding e by simp
  assume "list_all (\<lambda>s. s \<noteq> []) before'"
  with a have "list_all (\<lambda>s. s \<noteq> []) (before' @ [c'])" by simp
  then have "list_all (\<lambda>s. s \<noteq> []) (cur # rest1)" unfolding cr .
  with k show "\<exists>out. FuseLineSegments (before' @ c' # n' # after') = Inr (False, out)"
    unfolding e by simp
next
  assume a: "nx \<noteq> [] \<and> DistanceTo p (hd nx) > kEpsilon"
  then show s: "fuse_loop pre [p] (nx # rest) = fuse_loop (pre @ [[p]]) nx rest"
    by simp
  assume "fuse_loop pre [p] (nx # rest) = Inr (r, out')"
  with s have "fuse_loop (pre @ [[p]]) nx rest = Inr (r, out')" by simp
  from fuse_loop_keeps_prefix[OF this] show "take (Suc (length pre)) out' = pre @ [[p]]"
    by simp
next
  show "fuse_loop pre [p] [] = Inr (True, pre @ [[p]])" by simp
next
  assume a: "(ahead \<noteq> [] \<longrightarrow> DistanceTo (last (last ahead)) q > kEpsilon) \<and>
    (behind \<noteq> [] \<longrightarrow> DistanceTo q (hd (hd behind)) > kEpsilon) \<and>
    FuseLineSegments (ahead @ [q] # behind) = Inr (r', out'')"
  show "[q] \<in> set out''"
  proof (cases ahead)
    case Nil
    with a have f: "fuse_loop [] [q] behind = Inr (r', out'')" by (simp add: FuseLineSegments_def)
    show ?thesis
    proof (cases behind)
      case Nil
      with f show ?thesis by auto
    next
      case (Cons n b)
      with a have "DistanceTo q (hd n) > kEpsilon" by simp
      with f Cons have "fuse_loop ([] @ [[q]]) n b = Inr (r', out'')"
        by (auto split: if_splits)
      then show ?thesis by (rule fuse_loop_prefix_in_result) simp
    qed
  next
    case (Cons cur rest1)
    with a have f: "fuse_loop [] cur (rest1 @ [q] # behind) = Inr (r', out'')"
      by (simp add: FuseLineSegments_def)
    from a Cons have far: "DistanceTo (last (last (cur # rest1))) q > kEpsilon" by simp
    from a have "behind \<noteq> [] \<longrightarrow> DistanceTo q (hd (hd behind)) > kEpsilon" by simp
    with f far show ?thesis by (rule fuse_loop_far_single_stays)
  qed
qed

theorem FuseLineSegments_false_only_at_short_joint_witness:
  "FuseLineSegments [[mkVec2d 0 0, mkVec2d 1 0], [mkVec2d 1 0]] =
     Inr (False, [[mkVec2d 0 0, mkVec2d 1 0], [mkVec2d 1 0]]) \<and>
   (\<exists>before c n after.
      [[mkVec2d 0 0, mkVec2d 1 0], [mkVec2d 1 0]] = before @ c # n # after \<and> c \<noteq> [] \<and> n \<noteq> [] \<and>
      DistanceTo (last c) (hd n) \<le> kEpsilon \<and> (length c < 2 \<or> length n < 2)) \<and>
   [mkVec2d 1 0, mkVec2d 1 (- 1)] \<noteq> [] \<and> [mkVec2d 1 (- 1)] \<noteq> [] \<and>
   DistanceTo (last [mkVec2d 1 0, mkVec2d 1 (- 1)]) (hd [mkVec2d 1 (- 1)]) \<le> kEpsilon \<and>
   length [mkVec2d 1 (- 1)] < 2 \<and>
   list_all (\<lambda>s. s \<noteq> []) [[mkVec2d 0 0, mkVec2d 1 0]] \<and>
   (\<exists>out. FuseLineSegments ([[mkVec2d 0 0, mkVec2d 1 0]] @ [mkVec2d 1 0, mkVec2d 1 (- 1)]
              # [mkVec2d 1 (- 1)] # []) = Inr (False, out)) \<and>
   [mkVec2d 1 0, mkVec2d 2 0] \<noteq> [] \<and>
   DistanceTo (mkVec2d 0 0) (hd [mkVec2d 1 0, mkVec2d 2 0]) > kEpsilon \<and>
   fuse_loop [] [mkVec2d 0 0] ([mkVec2d 1 0, mkVec2d 2 0] # []) = Inr (True, [[mkVec2d 0 0], [mkVec2d 1 0, mkVec2d 2 0]]) \<and>
   take (Suc (length ([] :: segment list))) [[mkVec2d 0 0], [mkVec2d 1 0, mkVec2d 2 0]] = [] @ [[mkVec2d 0 0]] \<and>
   DistanceTo (last (last [[mkVec2d 0 0, mkVec2d 1 0]])) (mkVec2d 3 0) > kEpsilon \<and>
   DistanceTo (mkVec2d 3 0) (hd (hd [[mkVec2d 5 0, mkVec2d 6 0]])) > kEpsilon \<and>
   FuseLineSegments ([[mkVec2d 0 0, mkVec2d 1 0]] @ [mkVec2d 3 0] # [[mkVec2d 5 0, mkVec2d 6 0]]) =
     Inr (True, [[mkVec2d 0 0, mkVec2d 1 0], [mkVec2d 3 0], [mkVec2d 5 0, mkVec2d 6 0]]) \<and>
   [mkVec2d 3 0] \<in> set [[mkVec2d 0 0, mkVec2d 1 0], [mkVec2d 3 0], [mkVec2d 5 0, mkVec2d 6 0]]"
proof -
  have f: "FuseLineSegments [[mkVec2d 0 0, mkVec2d 1 0], [mkVec2d 1 0]] =
     Inr (False, [[mkVec2d 0 0, mkVec2d 1 0], [mkVec2d 1 0]])"
    by (simp add: fuse_eval)
  have c: "[mkVec2d 1 0, mkVec2d 1 (- 1)] \<noteq> [] \<and> [mkVec2d 1 (- 1)] \<noteq> [] \<and>
     DistanceTo (last [mkVec2d 1 0, mkVec2d 1 (- 1)]) (hd [mkVec2d 1 (- 1)]) \<le> kEpsilon \<and>
     length [mkVec2d 1 (- 1)] < 2 \<and>
     list_all (\<lambda>s. s \<noteq> []) [[mkVec2d 0 0, mkVec2d 1 0]]"
    by (simp add: fuse_eval)
  have g: "[mkVec2d 1 0, mkVec2d 2 0] \<noteq> [] \<and>
      DistanceTo (mkVec2d 0 0) (hd [mkVec2d 1 0, mkVec2d 2 0]) > kEpsilon"
    by (simp add: fuse_eval)
  have h: "fuse_loop [] [mkVec2d 0 0] ([mkVec2d 1 0, mkVec2d 2 0] # []) =
      Inr (True, [[mkVec2d 0 0], [mkVec2d 1 0, mkVec2d 2 0]])"
    by (simp add: fuse_eval)
  have d: "DistanceTo (last (last [[mkVec2d 0 0, mkVec2d 1 0]])) (mkVec2d 3 0) > kEpsilon \<and>
     DistanceTo (mkVec2d 3 0) (hd (hd [[mkVec2d 5 0, mkVec2d 6 0]])) > kEpsilon \<and>
     FuseLineSegments ([[mkVec2d 0 0, mkVec2d 1 0]] @ [mkVec2d 3 0] # [[mkVec2d 5 0, mkVec2d 6 0]]) =
       Inr (True, [[mkVec2d 0 0, mkVec2d 1 0], [mkVec2d 3 0], [mkVec2d 5 0, mkVec2d 6 0]])"
    by (simp add: fuse_eval)
  note t1 = FuseLineSegments_false_only_at_short_joint
    [where segs = "[[mkVec2d 0 0, mkVec2d 1 0], [mkVec2d 1 0]]"
       and out = "[[mkVec2d 0 0, mkVec2d 1 0], [mkVec2d 1 0]]"
       and c' = "[mkVec2d 1 0, mkVec2d 1 (- 1)]" and n' = "[mkVec2d 1 (- 1)]"
       and before' = "[[mkVec2d 0 0, mkVec2d 1 0]]" and after' = "[]"
       and nx = "[mkVec2d 1 0, mkVec2d 2 0]" and p = "mkVec2d 0 0" and pre = "[]"
       and rest = "[]" and r = True and out' = "[[mkVec2d 0 0], [mkVec2d 1 0, mkVec2d 2 0]]"
       and ahead = "[[mkVec2d 0 0, mkVec2d 1 0]]" and q = "mkVec2d 3 0"
       and behind = "[[mkVec2d 5 0, mkVec2d 6 0]]" and r' = True
       and out'' = "[[mkVec2d 0 0, mkVec2d 1 0], [mkVec2d 3 0], [mkVec2d 5 0, mkVec2d 6 0]]"]
  from t1 f have e: "\<exists>before c n after.
      [[mkVec2d 0 0, mkVec2d 1 0], [mkVec2d 1 0]] = before @ c # n # after \<and> c \<noteq> [] \<and> n \<noteq> [] \<and>
      DistanceTo (last c) (hd n) \<le> kEpsilon \<and> (length c < 2 \<or> length n < 2)"
    by blast
  from t1 c have e2: "\<exists>out. FuseLineSegments ([[mkVec2d 0 0, mkVec2d 1 0]] @ [mkVec2d 1 0, mkVec2d 1 (- 1)]
              # [mkVec2d 1 (- 1)] # []) = Inr (False, out)"
    by blast
  from t1 g h have k: "take (Suc (length ([] :: segment list))) [[mkVec2d 0 0], [mkVec2d 1 0, mkVec2d 2 0]] = [] @ [[mkVec2d 0 0]]"
    by blast
  from t1 d have m: "[mkVec2d 3 0] \<in> set [[mkVec2d 0 0, mkVec2d 1 0], [mkVec2d 3 0], [mkVec2d 5 0, mkVec2d 6 0]]"
    by blast
  from f e c e2 g h k d m show ?thesis by blast
qed

text \<open>
  C10 as stated fails: a one-point segment that is the last segment, and whose point
  coincides with the last point of its predecessor, is not stepped over; the call
  returns false.
\<close>

theorem FuseLineSegments_last_single_point_rejected:
  "length (last [[mkVec2d 0 0, mkVec2d 1 0], [mkVec2d 1 0]]) = 1 \<and>
   FuseLineSegments [[mkVec2d 0 0, mkVec2d 1 0], [mkVec2d 1 0]] =
     Inr (False, [[mkVec2d 0 0, mkVec2d 1 0], [mkVec2d 1 0]])"
  by (simp add: fuse_eval)

subsection \<open>Idempotence\<close>

lemma all_stable_snoc:
  "all_stable (xs @ [a]) \<Longrightarrow> stable_joint a b \<Longrightarrow> all_stable (xs @ [a, b])"
  by (induction xs rule: all_stable.induct) auto

lemma stable_joint_append:
  "stable_joint a b \<Longrightarrow> stable_joint a (b @ [p])"
  by (auto simp: stable_joint_def nth_append)

lemma all_stable_extend_last:
  "all_stable (xs @ [b]) \<Longrightarrow> all_stable (xs @ [b @ [p]])"
  by (induction xs rule: all_stable.induct) (simp_all add: stable_joint_append)

lemma fuse_loop_true_stable:
  "fuse_loop pre cur rest = Inr (True, out) \<Longrightarrow> all_stable (pre @ [cur]) \<Longrightarrow> all_stable out"
proof (induction pre cur rest rule: fuse_loop.induct)
  case (1 pre cur)
  then show ?case by simp
next
  case (2 pre cur "next" rest)
  then show ?case
    by (auto simp: Let_def stable_joint_def all_stable_snoc all_stable_extend_last
        split: if_splits)
qed

lemma fuse_loop_stable_id:
  "all_stable (cur # rest) \<Longrightarrow> fuse_loop pre cur rest = Inr (True, pre @ cur # rest)"
proof (induction rest arbitrary: pre cur)
  case Nil
  then show ?case by simp
next
  case (Cons n rest)
  then show ?case by (auto simp: stable_joint_def)
qed

lemma fuse_loop_prefix:
  "fuse_loop pre cur rest = Inr (b, out) \<Longrightarrow> \<exists>c tl. out = pre @ c # tl"
proof (induction pre cur rest rule: fuse_loop.induct)
  case (1 pre cur)
  then show ?case by auto
next
  case (2 pre cur "next" rest)
  then show ?case
    by (auto simp: Let_def split: if_splits)
qed

text \<open>
  C9. When \<open>FuseLineSegments\<close> has returned true with the vector \<open>out\<close>, a second call on
  \<open>out\<close> returns true with \<open>out\<close> unchanged: every joint of \<open>out\<close> is one that the loop
  steps over, so the second call merges nothing.
\<close>

theorem FuseLineSegments_idempotent:
  "FuseLineSegments segs = Inr (True, out) \<Longrightarrow> FuseLineSegments out = Inr (True, out)"
proof -
  assume a: "FuseLineSegments segs = Inr (True, out)"
  then obtain cur rest where f: "fuse_loop [] cur rest = Inr (True, out)"
    by (auto simp: FuseLineSegments_def split: list.splits)
  have st: "all_stable out" using fuse_loop_true_stable[OF f] by simp
  from fuse_loop_prefix[OF f] obtain c r where "out = c # r" by auto
  then show ?thesis
    using fuse_loop_stable_id[of c r "[]"] st by (simp add: FuseLineSegments_def)
qed

theorem FuseLineSegments_idempotent_witness:
  "FuseLineSegments [[mkVec2d 0 0, mkVec2d 1 0], [mkVec2d 1 0, mkVec2d 1 (- 1)],
                     [mkVec2d 1 (- 1), mkVec2d 2 (- 1)]] =
     Inr (True, [[mkVec2d 0 0, mkVec2d 1 0, mkVec2d 1 (- 1)], [mkVec2d 1 (- 1), mkVec2d 2 (- 1)]]) \<and>
   FuseLineSegments [[mkVec2d 0 0, mkVec2d 1 0, mkVec2d 1 (- 1)], [mkVec2d 1 (- 1), mkVec2d 2 (- 1)]] =
     Inr (True, [[mkVec2d 0 0, mkVec2d 1 0, mkVec2d 1 (- 1)], [mkVec2d 1 (- 1), mkVec2d 2 (- 1)]])"
proof -
  have h: "FuseLineSegments [[mkVec2d 0 0, mkVec2d 1 0], [mkVec2d 1 0, mkVec2d 1 (- 1)],
                     [mkVec2d 1 (- 1), mkVec2d 2 (- 1)]] =
     Inr (True, [[mkVec2d 0 0, mkVec2d 1 0, mkVec2d 1 (- 1)], [mkVec2d 1 (- 1), mkVec2d 2 (- 1)]])"
    by (simp add: fuse_eval)
  from h FuseLineSegments_idempotent[OF h] show ?thesis by (rule conjI)
qed

section \<open>Properties of the hyperplane generator\<close>

declare piece_loop.simps [simp del] hyperplanes_loop.simps [simp del]

subsection \<open>One edge\<close>

lemma line_above:
  fixes x1 x2 y1 y2 px py :: real
  assumes "x1 < x2" "(x2 - x1) * (py - y1) - (y2 - y1) * (px - x1) > 0"
  shows "py - (y1 - y2) / (x1 - x2) * px > (x1 * y2 - x2 * y1) / (x1 - x2)"
proof -
  define d where "d = x1 - x2"
  define num where "num = py * d - (y1 - y2) * px - (x1 * y2 - x2 * y1)"
  have d: "d < 0" using assms by (simp add: d_def)
  have eq: "py - (y1 - y2) / d * px - (x1 * y2 - x2 * y1) / d = num / d"
    using d by (simp add: num_def field_simps)
  have "num = - ((x2 - x1) * (py - y1) - (y2 - y1) * (px - x1))"
    by (simp add: num_def d_def algebra_simps)
  with assms have "num < 0" by simp
  with d have "num / d > 0" by (simp add: zero_less_divide_iff)
  with eq show ?thesis by (simp add: d_def)
qed

lemma line_below:
  fixes x1 x2 y1 y2 px py :: real
  assumes "x2 < x1" "(x2 - x1) * (py - y1) - (y2 - y1) * (px - x1) > 0"
  shows "(y1 - y2) / (x1 - x2) * px - py > - ((x1 * y2 - x2 * y1) / (x1 - x2))"
proof -
  define d where "d = x1 - x2"
  define num where "num = (y1 - y2) * px - py * d + (x1 * y2 - x2 * y1)"
  have d: "d > 0" using assms by (simp add: d_def)
  have eq: "(y1 - y2) / d * px - py + (x1 * y2 - x2 * y1) / d = num / d"
    using d by (simp add: num_def field_simps)
  have "num = (x2 - x1) * (py - y1) - (y2 - y1) * (px - x1)"
    by (simp add: num_def d_def algebra_simps)
  with assms have "num > 0" by simp
  then have "num / d > 0" using d by (simp add: zero_less_divide_iff)
  with eq show ?thesis by (simp add: d_def)
qed

lemma edge_hyperplane_inward:
  assumes e: "exact_edge v1 v2" and c: "CrossProd v1 v2 p > 0"
  shows "row_dot (fst (edge_hyperplane v1 v2)) p > snd (edge_hyperplane v1 v2) ! 0"
proof (cases "\<bar>vx v1 - vx v2\<bar> < kEpsilon_hyperplane")
  case True
  with e have x: "vx v1 = vx v2" by (simp add: exact_edge_def)
  from c x have "(vy v2 - vy v1) * (vx p - vx v1) < 0" by (simp add: CrossProd_def)
  then show ?thesis using True
    by (auto simp: edge_hyperplane_def row_dot_def mult_less_0_iff)
next
  case False
  note nv = this
  show ?thesis
  proof (cases "\<bar>vy v1 - vy v2\<bar> < kEpsilon_hyperplane")
    case True
    with e nv have y: "vy v1 = vy v2" by (simp add: exact_edge_def)
    from c y have "(vx v2 - vx v1) * (vy p - vy v1) > 0" by (simp add: CrossProd_def)
    moreover from nv have "vx v1 \<noteq> vx v2" by (auto simp: kEpsilon_hyperplane_def)
    ultimately show ?thesis using True nv
      by (auto simp: edge_hyperplane_def row_dot_def zero_less_mult_iff)
  next
    case False
    from nv have ne: "vx v1 \<noteq> vx v2" by (auto simp: kEpsilon_hyperplane_def)
    from c have c': "(vx v2 - vx v1) * (vy p - vy v1) - (vy v2 - vy v1) * (vx p - vx v1) > 0"
      by (simp add: CrossProd_def)
    show ?thesis
    proof (cases "vx v1 < vx v2")
      case True
      from line_above[OF True c'] show ?thesis using nv False True
        by (simp add: edge_hyperplane_def row_dot_def inverse_2x2_def mat_vec_2x2_def Let_def
            diff_divide_distrib add_divide_distrib algebra_simps)
    next
      case F: False
      with ne have lt: "vx v2 < vx v1" by simp
      from line_below[OF lt c'] show ?thesis using nv False F
        by (simp add: edge_hyperplane_def row_dot_def inverse_2x2_def mat_vec_2x2_def Let_def
            diff_divide_distrib add_divide_distrib algebra_simps)
    qed
  qed
qed

lemma line_through:
  fixes x1 x2 y1 y2 :: real
  assumes "x1 \<noteq> x2"
  shows "y1 - (y1 / (x1 - x2) - y2 / (x1 - x2)) * x1 = x1 * y2 / (x1 - x2) - x2 * y1 / (x1 - x2)"
proof -
  define d where "d = x1 - x2"
  have d: "d \<noteq> 0" using assms by (simp add: d_def)
  have "y1 - (y1 / d - y2 / d) * x1 - (x1 * y2 / d - x2 * y1 / d) = (y1 * d - (y1 - y2) * x1 - (x1 * y2 - x2 * y1)) / d"
    using d by (simp add: field_simps)
  also have "y1 * d - (y1 - y2) * x1 - (x1 * y2 - x2 * y1) = 0"
    by (simp add: d_def algebra_simps)
  finally show ?thesis by (simp add: d_def)
qed

lemma edge_hyperplane_through_v1:
  "row_dot (fst (edge_hyperplane v1 v2)) v1 = snd (edge_hyperplane v1 v2) ! 0"
proof (cases "\<bar>vx v1 - vx v2\<bar> < kEpsilon_hyperplane \<or> \<bar>vy v1 - vy v2\<bar> < kEpsilon_hyperplane")
  case True
  then show ?thesis by (auto simp: edge_hyperplane_def row_dot_def)
next
  case False
  then have ne: "vx v1 \<noteq> vx v2" by (auto simp: kEpsilon_hyperplane_def)
  from line_through[OF ne, of "vy v1" "vy v2"] False show ?thesis
    by (auto simp: edge_hyperplane_def row_dot_def inverse_2x2_def mat_vec_2x2_def Let_def
        algebra_simps)
qed

lemma edge_hyperplane_outward:
  assumes e: "exact_edge v1 v2" and c: "CrossProd v1 v2 p < 0"
  shows "row_dot (fst (edge_hyperplane v1 v2)) p < snd (edge_hyperplane v1 v2) ! 0"
proof -
  define q where "q = \<lparr>vx = 2 * vx v1 - vx p, vy = 2 * vy v1 - vy p\<rparr>"
  have cq: "CrossProd v1 v2 q > 0" using c by (simp add: CrossProd_def q_def algebra_simps)
  have lin: "row_dot r q = 2 * row_dot r v1 - row_dot r p" for r
    by (simp add: row_dot_def q_def algebra_simps)
  from edge_hyperplane_inward[OF e cq] show ?thesis
    by (simp add: lin edge_hyperplane_through_v1)
qed

subsection \<open>The rows written by the loops\<close>

lemma piece_loop_rows:
  "piece_loop vs j n A_i b_i = Inr (A', b') \<Longrightarrow> length A_i = n \<Longrightarrow> length b_i = n \<Longrightarrow>
   length A' = n \<and> length b' = n \<and>
   (\<forall>k<j. A' ! k = A_i ! k \<and> b' ! k = b_i ! k) \<and>
   (\<forall>k. j \<le> k \<and> k < n \<longrightarrow> Suc k < length vs \<and>
        A' ! k = fst (edge_hyperplane (vs ! k) (vs ! Suc k)) \<and>
        b' ! k = snd (edge_hyperplane (vs ! k) (vs ! Suc k)))"
proof (induction vs j n A_i b_i rule: piece_loop.induct)
  case (1 vs j n A_i b_i)
  show ?case
  proof (cases "j < n")
    case False
    with "1.prems" show ?thesis by (auto simp: piece_loop.simps)
  next
    case True
    with "1.prems"(1) have inb: "j + 1 < length vs"
      by (simp add: piece_loop.simps split: if_splits)
    define Ab where "Ab = edge_hyperplane (vs ! j) (vs ! (j + 1))"
    from "1.prems"(1) True inb
    have rec: "piece_loop vs (j + 1) n (A_i[j := fst Ab]) (b_i[j := snd Ab]) = Inr (A', b')"
      by (simp add: piece_loop.simps[of vs j] Let_def Ab_def)
    have IH: "length A' = n \<and> length b' = n \<and>
      (\<forall>k<j + 1. A' ! k = (A_i[j := fst Ab]) ! k \<and> b' ! k = (b_i[j := snd Ab]) ! k) \<and>
      (\<forall>k. j + 1 \<le> k \<and> k < n \<longrightarrow> Suc k < length vs \<and>
        A' ! k = fst (edge_hyperplane (vs ! k) (vs ! Suc k)) \<and>
        b' ! k = snd (edge_hyperplane (vs ! k) (vs ! Suc k)))"
      using "1.IH"[OF True inb refl refl refl] rec "1.prems"(2,3)
      by (simp add: Ab_def)
    have atj: "A' ! j = fst Ab \<and> b' ! j = snd Ab"
      using IH True "1.prems"(2,3) by simp
    have below: "\<forall>k<j. A' ! k = A_i ! k \<and> b' ! k = b_i ! k"
      using IH by auto
    have above: "\<forall>k. j \<le> k \<and> k < n \<longrightarrow> Suc k < length vs \<and>
        A' ! k = fst (edge_hyperplane (vs ! k) (vs ! Suc k)) \<and>
        b' ! k = snd (edge_hyperplane (vs ! k) (vs ! Suc k))"
    proof (intro allI impI)
      fix k assume k: "j \<le> k \<and> k < n"
      show "Suc k < length vs \<and>
        A' ! k = fst (edge_hyperplane (vs ! k) (vs ! Suc k)) \<and>
        b' ! k = snd (edge_hyperplane (vs ! k) (vs ! Suc k))"
      proof (cases "k = j")
        case True
        then show ?thesis using atj inb by (simp add: Ab_def)
      next
        case False
        with k have "j + 1 \<le> k \<and> k < n" by simp
        with IH show ?thesis by blast
      qed
    qed
    from IH below above show ?thesis by blast
  qed
qed

lemma rows_before_Suc:
  "i < length edges \<Longrightarrow> rows_before edges (Suc i) = rows_before edges i + nat (edges ! i)"
  by (simp add: rows_before_def take_Suc_conv_app_nth)

lemma write_block_rows:
  "write_block c blk M = Inr M' \<Longrightarrow>
   length M' = length M \<and> c + length blk \<le> length M \<and>
   (\<forall>k<c. M' ! k = M ! k) \<and> (\<forall>k<length blk. M' ! (c + k) = blk ! k)"
  by (auto simp: write_block_def nth_append split: if_splits)

lemma hyperplanes_loop_rows:
  "hyperplanes_loop n edges verts i counter A b = Inr (A', b') \<Longrightarrow>
   counter = rows_before edges i \<Longrightarrow>
   length A' = length A \<and> length b' = length b \<and>
   (\<forall>k<counter. A' ! k = A ! k \<and> b' ! k = b ! k) \<and>
   (\<forall>i' j. i \<le> i' \<and> i' < n \<and> j < nat (edges ! i') \<longrightarrow>
      Suc j < length (verts ! i') \<and>
      rows_before edges i' + j < length A \<and> rows_before edges i' + j < length b \<and>
      A' ! (rows_before edges i' + j) = fst (edge_hyperplane (verts ! i' ! j) (verts ! i' ! Suc j)) \<and>
      b' ! (rows_before edges i' + j) = snd (edge_hyperplane (verts ! i' ! j) (verts ! i' ! Suc j)))"
proof (induction m \<equiv> "n - i" arbitrary: i counter A b)
  case 0
  then show ?case by (auto simp: hyperplanes_loop.simps[of n edges verts i])
next
  case (Suc m)
  from Suc.hyps(2) have lt: "i < n" by simp
  define cvn where "cvn = nat (edges ! i)"
  from Suc.prems(1) lt have inb: "i < length edges" "i < length verts" and nn: "\<not> edges ! i < 0"
    by (auto simp: hyperplanes_loop.simps[of n edges verts i] split: if_splits)
  from Suc.prems(1) lt inb nn obtain A_i b_i A1 b1 where
    pl: "piece_loop (verts ! i) 0 cvn (Zero_matrix cvn 2) (Zero_matrix cvn 1) = Inr (A_i, b_i)" and
    wA: "write_block counter A_i A = Inr A1" and
    wb: "write_block counter b_i b = Inr b1" and
    rec: "hyperplanes_loop n edges verts (i + 1) (counter + cvn) A1 b1 = Inr (A', b')"
    by (auto simp: hyperplanes_loop.simps[of n edges verts i] Let_def cvn_def
        split: sum.splits prod.splits)
  have c': "counter + cvn = rows_before edges (i + 1)"
    using Suc.prems(2) inb by (simp add: rows_before_Suc cvn_def)
  have m: "m = n - (i + 1)" using Suc.hyps(2) by simp
  note IH = Suc.hyps(1)[OF m rec c']
  note P = piece_loop_rows[OF pl]
  have P': "length A_i = cvn \<and> length b_i = cvn \<and>
     (\<forall>k. k < cvn \<longrightarrow> Suc k < length (verts ! i) \<and>
        A_i ! k = fst (edge_hyperplane (verts ! i ! k) (verts ! i ! Suc k)) \<and>
        b_i ! k = snd (edge_hyperplane (verts ! i ! k) (verts ! i ! Suc k)))"
    using P by (simp add: Zero_matrix_def)
  note WA = write_block_rows[OF wA]
  note Wb = write_block_rows[OF wb]
  have len: "length A' = length A \<and> length b' = length b" using IH WA Wb by simp
  have low: "\<forall>k<counter. A' ! k = A ! k \<and> b' ! k = b ! k"
    using IH WA Wb by simp
  have rows: "\<forall>i' j. i \<le> i' \<and> i' < n \<and> j < nat (edges ! i') \<longrightarrow>
      Suc j < length (verts ! i') \<and>
      rows_before edges i' + j < length A \<and> rows_before edges i' + j < length b \<and>
      A' ! (rows_before edges i' + j) = fst (edge_hyperplane (verts ! i' ! j) (verts ! i' ! Suc j)) \<and>
      b' ! (rows_before edges i' + j) = snd (edge_hyperplane (verts ! i' ! j) (verts ! i' ! Suc j))"
  proof (intro allI impI)
    fix i' j assume h: "i \<le> i' \<and> i' < n \<and> j < nat (edges ! i')"
    show "Suc j < length (verts ! i') \<and>
      rows_before edges i' + j < length A \<and> rows_before edges i' + j < length b \<and>
      A' ! (rows_before edges i' + j) = fst (edge_hyperplane (verts ! i' ! j) (verts ! i' ! Suc j)) \<and>
      b' ! (rows_before edges i' + j) = snd (edge_hyperplane (verts ! i' ! j) (verts ! i' ! Suc j))"
    proof (cases "i' = i")
      case True
      with h have j: "j < cvn" by (simp add: cvn_def)
      have "counter + j < counter + cvn" using j by simp
      with IH have "A' ! (counter + j) = A1 ! (counter + j) \<and> b' ! (counter + j) = b1 ! (counter + j)"
        by blast
      moreover have "A1 ! (counter + j) = A_i ! j \<and> b1 ! (counter + j) = b_i ! j"
        using WA Wb P' j by simp
      moreover have "counter + j < length A \<and> counter + j < length b"
        using WA Wb P' j by simp
      ultimately show ?thesis using P' j True Suc.prems(2) by simp
    next
      case False
      with h have "i + 1 \<le> i' \<and> i' < n \<and> j < nat (edges ! i')" by simp
      with IH WA Wb show ?thesis by simp
    qed
  qed
  from len low rows show ?case by blast
qed

lemma GetHyperPlanes_rows:
  assumes "GetHyperPlanes n edges verts A0 b0 = Inr (True, A, b)"
  shows "length A = nat (sum_list edges) \<and> length b = nat (sum_list edges) \<and> n = length verts \<and>
    (\<forall>i j. i < n \<and> j < nat (edges ! i) \<longrightarrow>
      Suc j < length (verts ! i) \<and>
      rows_before edges i + j < length A \<and> rows_before edges i + j < length b \<and>
      A ! (rows_before edges i + j) = fst (edge_hyperplane (verts ! i ! j) (verts ! i ! Suc j)) \<and>
      b ! (rows_before edges i + j) = snd (edge_hyperplane (verts ! i ! j) (verts ! i ! Suc j)))"
proof -
  from assms have n: "n = length verts"
    by (auto simp: GetHyperPlanes_def split: if_splits)
  from assms n obtain A1 b1 where
    rA: "resize A0 (sum_list edges) 2 = Inr A1" and rb: "resize b0 (sum_list edges) 1 = Inr b1" and
    l: "hyperplanes_loop n edges verts 0 0 A1 b1 = Inr (A, b)"
    by (auto simp: GetHyperPlanes_def split: if_splits sum.splits prod.splits)
  have lA: "length A1 = nat (sum_list edges)" using rA
    by (auto simp: resize_def Zero_matrix_def split: if_splits)
  have lb: "length b1 = nat (sum_list edges)" using rb
    by (auto simp: resize_def Zero_matrix_def split: if_splits)
  have z: "(0::nat) = rows_before edges 0" by (simp add: rows_before_def)
  from hyperplanes_loop_rows[OF l z] lA lb n show ?thesis by simp
qed

subsection \<open>Orientation of the rows\<close>

lemmas hp_eval = GetHyperPlanes_def resize_def Zero_matrix_def hyperplanes_loop.simps
  piece_loop.simps write_block_def edge_hyperplane_def kEpsilon_hyperplane_def inverse_2x2_def
  mat_vec_2x2_def mkVec2d_def Let_def eval_nat_numeral

lemmas inside_eval = strictly_inside_cw_def strictly_inside_ccw_def exact_edges_def exact_edge_def
  CrossProd_def row_dot_def rows_before_def kEpsilon_hyperplane_def mkVec2d_def upt_rec

text \<open>
  C1 (amended). When \<open>GetHyperPlanes\<close> returns true, every row \<open>j\<close> of every piece \<open>i\<close>
  stands in \<open>A\<close> and \<open>b\<close> at the offset of the piece plus \<open>j\<close>, and when every edge of the
  piece is exact: a point strictly inside the piece satisfies \<open>A_row . p < b_row\<close> when
  the closed loop is in clockwise order (the order in which the vertex loader passes
  the perception obstacles), and \<open>A_row . p > b_row\<close> when the loop is in counter-clockwise
  order.
\<close>

theorem GetHyperPlanes_row_orientation:
  assumes "GetHyperPlanes n edges verts A0 b0 = Inr (True, A, b)"
    and "i < n" and "j < nat (edges ! i)"
    and "exact_edges (verts ! i)"
  shows "rows_before edges i + j < length A \<and> rows_before edges i + j < length b \<and>
         (strictly_inside_cw (verts ! i) p \<longrightarrow>
            row_dot (A ! (rows_before edges i + j)) p < b ! (rows_before edges i + j) ! 0) \<and>
         (strictly_inside_ccw (verts ! i) p \<longrightarrow>
            row_dot (A ! (rows_before edges i + j)) p > b ! (rows_before edges i + j) ! 0)"
proof -
  note R = GetHyperPlanes_rows[OF assms(1)]
  from R assms(2,3) have j: "Suc j < length (verts ! i)" by blast
  then have mem: "j \<in> set [0..<length (verts ! i) - 1]" by simp
  from assms(4) mem have e: "exact_edge (verts ! i ! j) (verts ! i ! Suc j)"
    unfolding exact_edges_def list_all_iff by blast
  from R assms(2,3)
  have r: "rows_before edges i + j < length A \<and> rows_before edges i + j < length b \<and>
      A ! (rows_before edges i + j) = fst (edge_hyperplane (verts ! i ! j) (verts ! i ! Suc j)) \<and>
      b ! (rows_before edges i + j) = snd (edge_hyperplane (verts ! i ! j) (verts ! i ! Suc j))"
    by blast
  have cw: "row_dot (A ! (rows_before edges i + j)) p < b ! (rows_before edges i + j) ! 0"
    if "strictly_inside_cw (verts ! i) p"
  proof -
    from that mem have "CrossProd (verts ! i ! j) (verts ! i ! Suc j) p < 0"
      unfolding strictly_inside_cw_def list_all_iff by blast
    from edge_hyperplane_outward[OF e this] r show ?thesis by simp
  qed
  have ccw: "row_dot (A ! (rows_before edges i + j)) p > b ! (rows_before edges i + j) ! 0"
    if "strictly_inside_ccw (verts ! i) p"
  proof -
    from that mem have "CrossProd (verts ! i ! j) (verts ! i ! Suc j) p > 0"
      unfolding strictly_inside_ccw_def list_all_iff by blast
    from edge_hyperplane_inward[OF e this] r show ?thesis by simp
  qed
  from r cw ccw show ?thesis by blast
qed

theorem GetHyperPlanes_row_orientation_witness:
  "GetHyperPlanes 1 [4] [[mkVec2d 4 4, mkVec2d 4 6, mkVec2d 6 6, mkVec2d 6 4, mkVec2d 4 4]] [] [] =
     Inr (True, [[- 1, 0], [0, 1], [1, 0], [0, - 1]], [[- 4], [6], [6], [- 4]]) \<and>
   exact_edges ([[mkVec2d 4 4, mkVec2d 4 6, mkVec2d 6 6, mkVec2d 6 4, mkVec2d 4 4]] ! 0) \<and>
   strictly_inside_cw ([[mkVec2d 4 4, mkVec2d 4 6, mkVec2d 6 6, mkVec2d 6 4, mkVec2d 4 4]] ! 0) (mkVec2d 5 5) \<and>
   row_dot ([[- 1, 0], [0, 1], [1, 0], [0, - 1]] ! (rows_before [4] 0 + 1)) (mkVec2d 5 5)
     < [[- 4], [6], [6], [- 4]] ! (rows_before [4] 0 + 1) ! 0 \<and>
   GetHyperPlanes 1 [4] [[mkVec2d 0 0, mkVec2d 2 0, mkVec2d 2 2, mkVec2d 0 2, mkVec2d 0 0]] [] [] =
     Inr (True, [[0, 1], [- 1, 0], [0, - 1], [1, 0]], [[0], [- 2], [- 2], [0]]) \<and>
   exact_edges ([[mkVec2d 0 0, mkVec2d 2 0, mkVec2d 2 2, mkVec2d 0 2, mkVec2d 0 0]] ! 0) \<and>
   strictly_inside_ccw ([[mkVec2d 0 0, mkVec2d 2 0, mkVec2d 2 2, mkVec2d 0 2, mkVec2d 0 0]] ! 0) (mkVec2d 1 1) \<and>
   row_dot ([[0, 1], [- 1, 0], [0, - 1], [1, 0]] ! (rows_before [4] 0 + 1)) (mkVec2d 1 1)
     > [[0], [- 2], [- 2], [0]] ! (rows_before [4] 0 + 1) ! 0"
proof -
  have g1: "GetHyperPlanes 1 [4] [[mkVec2d 4 4, mkVec2d 4 6, mkVec2d 6 6, mkVec2d 6 4, mkVec2d 4 4]] [] [] =
     Inr (True, [[- 1, 0], [0, 1], [1, 0], [0, - 1]], [[- 4], [6], [6], [- 4]])"
    by (simp add: hp_eval)
  have e1: "exact_edges ([[mkVec2d 4 4, mkVec2d 4 6, mkVec2d 6 6, mkVec2d 6 4, mkVec2d 4 4]] ! 0)"
    by (simp add: inside_eval)
  have i1: "strictly_inside_cw ([[mkVec2d 4 4, mkVec2d 4 6, mkVec2d 6 6, mkVec2d 6 4, mkVec2d 4 4]] ! 0) (mkVec2d 5 5)"
    by (simp add: inside_eval)
  have g2: "GetHyperPlanes 1 [4] [[mkVec2d 0 0, mkVec2d 2 0, mkVec2d 2 2, mkVec2d 0 2, mkVec2d 0 0]] [] [] =
     Inr (True, [[0, 1], [- 1, 0], [0, - 1], [1, 0]], [[0], [- 2], [- 2], [0]])"
    by (simp add: hp_eval)
  have e2: "exact_edges ([[mkVec2d 0 0, mkVec2d 2 0, mkVec2d 2 2, mkVec2d 0 2, mkVec2d 0 0]] ! 0)"
    by (simp add: inside_eval)
  have i2: "strictly_inside_ccw ([[mkVec2d 0 0, mkVec2d 2 0, mkVec2d 2 2, mkVec2d 0 2, mkVec2d 0 0]] ! 0) (mkVec2d 1 1)"
    by (simp add: inside_eval)
  have n: "(0::nat) < 1" "1 < nat ([4] ! 0)" by simp_all
  from GetHyperPlanes_row_orientation[OF g1 n e1, of "mkVec2d 5 5"] i1
  have r1: "row_dot ([[- 1, 0], [0, 1], [1, 0], [0, - 1]] ! (rows_before [4] 0 + 1)) (mkVec2d 5 5)
     < [[- 4], [6], [6], [- 4]] ! (rows_before [4] 0 + 1) ! 0"
    by blast
  from GetHyperPlanes_row_orientation[OF g2 n e2, of "mkVec2d 1 1"] i2
  have r2: "row_dot ([[0, 1], [- 1, 0], [0, - 1], [1, 0]] ! (rows_before [4] 0 + 1)) (mkVec2d 1 1)
     > [[0], [- 2], [- 2], [0]] ! (rows_before [4] 0 + 1) ! 0"
    by blast
  from g1 e1 i1 r1 g2 e2 i2 r2 show ?thesis by blast
qed

text \<open>
  C1 as stated fails. The vertex loader passes a perception obstacle as a closed loop
  in clockwise order: for the box of side 2 around \<open>(5, 5)\<close> the loop is
  \<open>(4,4), (4,6), (6,6), (6,4), (4,4)\<close>, the first row is \<open>A = (-1, 0)\<close>, \<open>b = -4\<close>, and the
  centroid \<open>(5, 5)\<close>, strictly inside, has \<open>A . p = -5\<close>, which is not greater than \<open>-4\<close>.
\<close>

theorem GetHyperPlanes_clockwise_loop_not_inward:
  "perception_vertices
     \<lparr>roi_longitudinal_range = 10, roi_linesegment_min_angle = 1 / 10, roi_linesegment_length = 30,
      parking_depth_buffer = 0, parking_inwards = False, enable_perception_obstacles = True,
      perception_obstacle_buffer = 0, perception_obstacle_filtering_distance = 1000\<rparr>
     \<lparr>origin_heading = 0, origin_point = mkVec2d 0 0, ROI_xy_boundary = [- 10, 10, - 10, 10],
      open_space_end_pose = [0, 0, 0, 0], obstacles_vertices_vec = [], obstacles_edges_num = [],
      obstacles_num = 0, obstacles_A = [], obstacles_b = []\<rparr>
     \<lparr>IsVirtual = False, PerceptionBoundingBox =
        \<lparr>center = mkVec2d 5 5, box_length = 2, box_width = 2, box_heading = 0\<rparr>\<rparr> =
     Inr [mkVec2d 4 4, mkVec2d 4 6, mkVec2d 6 6, mkVec2d 6 4, mkVec2d 4 4] \<and>
   GetHyperPlanes 1 [4] [[mkVec2d 4 4, mkVec2d 4 6, mkVec2d 6 6, mkVec2d 6 4, mkVec2d 4 4]] [] [] =
     Inr (True, [[- 1, 0], [0, 1], [1, 0], [0, - 1]], [[- 4], [6], [6], [- 4]]) \<and>
   strictly_inside_cw [mkVec2d 4 4, mkVec2d 4 6, mkVec2d 6 6, mkVec2d 6 4, mkVec2d 4 4] (mkVec2d 5 5) \<and>
   \<not> row_dot ([[- 1, 0], [0, 1], [1, 0], [0, - 1]] ! 0) (mkVec2d 5 5) > [[- 4], [6], [6], [- 4]] ! 0 ! 0"
proof -
  have a: "perception_vertices
     \<lparr>roi_longitudinal_range = 10, roi_linesegment_min_angle = 1 / 10, roi_linesegment_length = 30,
      parking_depth_buffer = 0, parking_inwards = False, enable_perception_obstacles = True,
      perception_obstacle_buffer = 0, perception_obstacle_filtering_distance = 1000\<rparr>
     \<lparr>origin_heading = 0, origin_point = mkVec2d 0 0, ROI_xy_boundary = [- 10, 10, - 10, 10],
      open_space_end_pose = [0, 0, 0, 0], obstacles_vertices_vec = [], obstacles_edges_num = [],
      obstacles_num = 0, obstacles_A = [], obstacles_b = []\<rparr>
     \<lparr>IsVirtual = False, PerceptionBoundingBox =
        \<lparr>center = mkVec2d 5 5, box_length = 2, box_width = 2, box_heading = 0\<rparr>\<rparr> =
     Inr [mkVec2d 4 4, mkVec2d 4 6, mkVec2d 6 6, mkVec2d 6 4, mkVec2d 4 4]"
    by (simp add: perception_vertices_def GetAllCorners_def Shift_def LongitudinalExtend_def
        LateralExtend_def SelfRotate_def vec_add_def vec_mul_def mkVec2d_def Let_def)
  have b: "GetHyperPlanes 1 [4] [[mkVec2d 4 4, mkVec2d 4 6, mkVec2d 6 6, mkVec2d 6 4, mkVec2d 4 4]] [] [] =
     Inr (True, [[- 1, 0], [0, 1], [1, 0], [0, - 1]], [[- 4], [6], [6], [- 4]])"
    by (simp add: hp_eval)
  have c: "strictly_inside_cw [mkVec2d 4 4, mkVec2d 4 6, mkVec2d 6 6, mkVec2d 6 4, mkVec2d 4 4] (mkVec2d 5 5)"
    by (simp add: inside_eval)
  have d: "\<not> row_dot ([[- 1, 0], [0, 1], [1, 0], [0, - 1]] ! 0) (mkVec2d 5 5) > [[- 4], [6], [6], [- 4]] ! 0 ! 0"
    by (simp add: inside_eval)
  from a b c d show ?thesis by blast
qed

text \<open>
  The tolerance matters as well: in the thin triangle \<open>(0,0), (3e-6,0), (0,3)\<close>, given in
  counter-clockwise order, the first edge is within \<open>1e-5\<close> of vertical and is taken as
  vertical, and the centroid \<open>(1e-6, 1)\<close> does not satisfy \<open>A . p > b\<close> for that row,
  while it does for the third row.
\<close>

lemma GetHyperPlanes_tolerance_example:
  "GetHyperPlanes 1 [3] [[mkVec2d 0 0, mkVec2d (3 / 10 ^ 6) 0, mkVec2d 0 3, mkVec2d 0 0]] [] [] =
     Inr (True, [[- 1, 0], [- 1, 0], [1, 0]], [[0], [- (3 / 10 ^ 6)], [0]]) \<and>
   strictly_inside_ccw [mkVec2d 0 0, mkVec2d (3 / 10 ^ 6) 0, mkVec2d 0 3, mkVec2d 0 0] (mkVec2d (1 / 10 ^ 6) 1) \<and>
   \<not> row_dot [- 1, 0] (mkVec2d (1 / 10 ^ 6) 1) > 0 \<and>
   row_dot [1, 0] (mkVec2d (1 / 10 ^ 6) 1) > 0"
  by (simp add: hp_eval inside_eval)

section \<open>Properties of the obstacle loaders\<close>

lemma perception_vertices_length:
  "perception_vertices config info obstacle = Inr vs \<Longrightarrow> length vs = 5"
  by (auto simp: perception_vertices_def GetAllCorners_def Let_def split: if_splits)

lemma perception_loop_lengths:
  "perception_loop config bd frame obstacles = Inr pieces \<Longrightarrow> list_all (\<lambda>vs. length vs = 5) pieces"
proof (induction obstacles arbitrary: pieces)
  case Nil
  then show ?case by simp
next
  case (Cons a obstacles)
  then show ?case
    by (auto split: sum.splits bool.splits if_splits dest: perception_vertices_length)
qed

text \<open>
  C6. When the vertex loading and the hyperplane step have both returned true: there is
  one edge count per piece; the first pieces are the boundary pieces, and the edge count
  of each is its number of vertices minus one; every later piece is a perception
  obstacle, recorded with edge count 4 (and 5 vertices); the sum of the edge counts is
  the number of rows of \<open>A\<close> and the number of rows of \<open>b\<close>.
\<close>

theorem edge_counts_match_rows:
  assumes "FormulateBoundaryConstraints config bd roi frame = Inr (True, frame2)"
  shows "length (obstacles_edges_num (open_space_info frame2)) = obstacles_num (open_space_info frame2) \<and>
    length (obstacles_vertices_vec (open_space_info frame2)) = obstacles_num (open_space_info frame2) \<and>
    take (length roi) (obstacles_vertices_vec (open_space_info frame2)) = roi \<and>
    (\<forall>i<length roi. obstacles_edges_num (open_space_info frame2) ! i = int (length (roi ! i)) - 1) \<and>
    (\<forall>i. length roi \<le> i \<and> i < obstacles_num (open_space_info frame2) \<longrightarrow>
        obstacles_edges_num (open_space_info frame2) ! i = 4 \<and>
        length (obstacles_vertices_vec (open_space_info frame2) ! i) = 5) \<and>
    sum_list (obstacles_edges_num (open_space_info frame2)) = int (length (obstacles_A (open_space_info frame2))) \<and>
    sum_list (obstacles_edges_num (open_space_info frame2)) = int (length (obstacles_b (open_space_info frame2)))"
proof -
  from assms obtain frame1 where
    v: "LoadObstacleInVertices config bd roi frame = Inr (True, frame1)" and
    h: "LoadObstacleInHyperPlanes frame1 = Inr (True, frame2)"
    by (auto simp: FormulateBoundaryConstraints_def split: sum.splits prod.splits if_splits)
  define info1 where "info1 = open_space_info frame1"
  define old where "old = obstacles_vertices_vec (open_space_info frame)"
  from v obtain pieces where
    p5: "list_all (\<lambda>vs. length vs = 5) pieces" and
    vs1: "obstacles_vertices_vec info1 = old @ roi @ pieces" and
    es1: "obstacles_edges_num info1 = map (\<lambda>piece. int (length piece) - 1) roi @ replicate (length pieces) 4" and
    n1: "obstacles_num info1 = length roi + length pieces"
  proof (cases "enable_perception_obstacles config")
    case True
    with v obtain pieces where pl: "perception_loop config bd frame (obstacles_by_frame frame) = Inr pieces"
      and f1: "frame1 = frame\<lparr>open_space_info := (open_space_info frame)
                          \<lparr>obstacles_vertices_vec := (old @ roi) @ pieces,
                           obstacles_edges_num := map (\<lambda>piece. int (length piece) - 1) roi @ replicate (length pieces) 4,
                           obstacles_num := length roi + length pieces\<rparr>\<rparr>"
      by (auto simp: LoadObstacleInVertices_def Let_def old_def split: if_splits sum.splits)
    from perception_loop_lengths[OF pl] f1 that[of pieces] show ?thesis
      by (simp add: info1_def)
  next
    case False
    with v have "frame1 = frame\<lparr>open_space_info := (open_space_info frame)
                  \<lparr>obstacles_vertices_vec := old @ roi,
                   obstacles_edges_num := map (\<lambda>piece. int (length piece) - 1) roi,
                   obstacles_num := length roi\<rparr>\<rparr>"
      by (auto simp: LoadObstacleInVertices_def Let_def old_def split: if_splits sum.splits)
    with that[of "[]"] show ?thesis by (simp add: info1_def)
  qed
  from h obtain A b where
    nonneg: "\<not> sum_list (obstacles_edges_num info1) < 0" and
    g: "GetHyperPlanes (obstacles_num info1) (obstacles_edges_num info1) (obstacles_vertices_vec info1)
          (Zero_matrix (nat (sum_list (obstacles_edges_num info1))) 2)
          (Zero_matrix (nat (sum_list (obstacles_edges_num info1))) 1) = Inr (True, A, b)" and
    f2: "frame2 = frame1\<lparr>open_space_info := info1\<lparr>obstacles_A := A, obstacles_b := b\<rparr>\<rparr>"
    by (auto simp: LoadObstacleInHyperPlanes_def Let_def info1_def split: if_splits sum.splits prod.splits)
  note R = GetHyperPlanes_rows[OF g]
  from R vs1 n1 have old0: "old = []" by simp
  have i2: "open_space_info frame2 = info1\<lparr>obstacles_A := A, obstacles_b := b\<rparr>"
    using f2 by simp
  have c1: "length (obstacles_edges_num (open_space_info frame2)) = obstacles_num (open_space_info frame2)"
    using i2 es1 n1 by simp
  have c2: "length (obstacles_vertices_vec (open_space_info frame2)) = obstacles_num (open_space_info frame2)"
    using i2 vs1 n1 old0 by simp
  have c3: "take (length roi) (obstacles_vertices_vec (open_space_info frame2)) = roi"
    using i2 vs1 old0 by simp
  have c4: "\<forall>i<length roi. obstacles_edges_num (open_space_info frame2) ! i = int (length (roi ! i)) - 1"
    using i2 es1 by (simp add: nth_append)
  have c5: "\<forall>i. length roi \<le> i \<and> i < obstacles_num (open_space_info frame2) \<longrightarrow>
        obstacles_edges_num (open_space_info frame2) ! i = 4 \<and>
        length (obstacles_vertices_vec (open_space_info frame2) ! i) = 5"
    using i2 es1 vs1 n1 old0 p5 by (auto simp: nth_append list_all_length)
  have c6: "sum_list (obstacles_edges_num (open_space_info frame2)) = int (length (obstacles_A (open_space_info frame2)))"
    using i2 R nonneg by simp
  have c7: "sum_list (obstacles_edges_num (open_space_info frame2)) = int (length (obstacles_b (open_space_info frame2)))"
    using i2 R nonneg by simp
  from c1 c2 c3 c4 c5 c6 c7 show ?thesis by blast
qed

lemmas load_eval = FormulateBoundaryConstraints_def LoadObstacleInVertices_def
  LoadObstacleInHyperPlanes_def FilterOutObstacle_def at_index_def perception_vertices_def GetAllCorners_def
  Shift_def LongitudinalExtend_def LateralExtend_def SelfRotate_def vec_add_def vec_sub_def
  vec_mul_def

lemma example_constraints:
  "FormulateBoundaryConstraints example_config (\<lambda>box p. 0)
     [[mkVec2d 0 0, mkVec2d 1 0, mkVec2d 1 (- 1)]] example_frame =
   Inr (True, example_frame\<lparr>open_space_info := example_info\<lparr>
      obstacles_vertices_vec := [[mkVec2d 0 0, mkVec2d 1 0, mkVec2d 1 (- 1)],
         [mkVec2d 4 4, mkVec2d 4 6, mkVec2d 6 6, mkVec2d 6 4, mkVec2d 4 4]],
      obstacles_edges_num := [2, 4], obstacles_num := 2,
      obstacles_A := [[0, 1], [1, 0], [- 1, 0], [0, 1], [1, 0], [0, - 1]],
      obstacles_b := [[0], [1], [- 4], [6], [6], [- 4]]\<rparr>\<rparr>)"
  by (simp add: load_eval hp_eval example_config_def example_info_def example_frame_def)

theorem edge_counts_match_rows_witness:
  "FormulateBoundaryConstraints example_config (\<lambda>box p. 0)
     [[mkVec2d 0 0, mkVec2d 1 0, mkVec2d 1 (- 1)]] example_frame =
   Inr (True, example_frame\<lparr>open_space_info := example_info\<lparr>
      obstacles_vertices_vec := [[mkVec2d 0 0, mkVec2d 1 0, mkVec2d 1 (- 1)],
         [mkVec2d 4 4, mkVec2d 4 6, mkVec2d 6 6, mkVec2d 6 4, mkVec2d 4 4]],
      obstacles_edges_num := [2, 4], obstacles_num := 2,
      obstacles_A := [[0, 1], [1, 0], [- 1, 0], [0, 1], [1, 0], [0, - 1]],
      obstacles_b := [[0], [1], [- 4], [6], [6], [- 4]]\<rparr>\<rparr>) \<and>
   sum_list [2, 4] = int (length [[0, 1], [1, 0], [- 1, 0], [0, 1], [1, 0], [0, - 1 :: real]]) \<and>
   sum_list [2, 4] = int (length [[0], [1], [- 4], [6], [6], [- 4 :: real]])"
  using edge_counts_match_rows[OF example_constraints] example_constraints
  by simp

section \<open>Properties of the bracket search\<close>

declare lower_bound_loop.simps [simp del] upper_bound_loop.simps [simp del]

text \<open>The result of a search lies in the range searched, so it is at most the length.\<close>

lemma lower_bound_loop_range:
  "first \<le> lower_bound_loop xs v first len \<and> lower_bound_loop xs v first len \<le> first + len"
proof (induction xs v first len rule: lower_bound_loop.induct)
  case (1 xs v first len)
  show ?case
  proof (cases "len = 0")
    case True
    then show ?thesis by (simp add: lower_bound_loop.simps)
  next
    case False
    then have h: "len div 2 < len" by simp
    show ?thesis
    proof (cases "xs ! (first + len div 2) < v")
      case True
      with 1(1)[OF False refl refl True] False h show ?thesis
        by (subst (1 2) lower_bound_loop.simps) (simp add: Let_def)
    next
      case c: False
      with 1(2)[OF False refl refl c] False h show ?thesis
        by (subst (1 2) lower_bound_loop.simps) (simp add: Let_def)
    qed
  qed
qed

lemma upper_bound_loop_range:
  "first \<le> upper_bound_loop xs v first len \<and> upper_bound_loop xs v first len \<le> first + len"
proof (induction xs v first len rule: upper_bound_loop.induct)
  case (1 xs v first len)
  show ?case
  proof (cases "len = 0")
    case True
    then show ?thesis by (simp add: upper_bound_loop.simps)
  next
    case False
    then have h: "len div 2 < len" by simp
    show ?thesis
    proof (cases "v < xs ! (first + len div 2)")
      case True
      with 1(1)[OF False refl refl True] False h show ?thesis
        by (subst (1 2) upper_bound_loop.simps) (simp add: Let_def)
    next
      case c: False
      with 1(2)[OF False refl refl c] False h show ?thesis
        by (subst (1 2) upper_bound_loop.simps) (simp add: Let_def)
    qed
  qed
qed

lemma lower_bound_le_length: "lower_bound xs v \<le> length xs"
  using lower_bound_loop_range[of 0 xs v "length xs"] by (simp add: lower_bound_def)

lemma upper_bound_le_length: "upper_bound xs v \<le> length xs"
  using upper_bound_loop_range[of 0 xs v "length xs"] by (simp add: upper_bound_def)

text \<open>
  A search of a range inside the vector reads only elements of the vector: what stands
  after the vector does not change the result.
\<close>

lemma lower_bound_loop_reads_in_range:
  "first + len \<le> length xs \<Longrightarrow>
   lower_bound_loop (xs @ ys) v first len = lower_bound_loop xs v first len"
proof (induction xs v first len rule: lower_bound_loop.induct)
  case (1 xs v first len)
  show ?case
  proof (cases "len = 0")
    case True
    then show ?thesis by (simp add: lower_bound_loop.simps)
  next
    case False
    then have h: "len div 2 < len" by simp
    then have m: "first + len div 2 < length xs" using "1.prems" by simp
    show ?thesis
    proof (cases "xs ! (first + len div 2) < v")
      case True
      have "lower_bound_loop (xs @ ys) v (first + len div 2 + 1) (len - len div 2 - 1) =
            lower_bound_loop xs v (first + len div 2 + 1) (len - len div 2 - 1)"
        using 1(1)[OF False refl refl True] "1.prems" h by simp
      with True False m show ?thesis
        by (subst (1 2) lower_bound_loop.simps) (simp add: Let_def nth_append)
    next
      case c: False
      have "lower_bound_loop (xs @ ys) v first (len div 2) = lower_bound_loop xs v first (len div 2)"
        using 1(2)[OF False refl refl c] "1.prems" h by simp
      with c False m show ?thesis
        by (subst (1 2) lower_bound_loop.simps) (simp add: Let_def nth_append)
    qed
  qed
qed

lemma upper_bound_loop_reads_in_range:
  "first + len \<le> length xs \<Longrightarrow>
   upper_bound_loop (xs @ ys) v first len = upper_bound_loop xs v first len"
proof (induction xs v first len rule: upper_bound_loop.induct)
  case (1 xs v first len)
  show ?case
  proof (cases "len = 0")
    case True
    then show ?thesis by (simp add: upper_bound_loop.simps)
  next
    case False
    then have h: "len div 2 < len" by simp
    then have m: "first + len div 2 < length xs" using "1.prems" by simp
    show ?thesis
    proof (cases "v < xs ! (first + len div 2)")
      case True
      have "upper_bound_loop (xs @ ys) v first (len div 2) = upper_bound_loop xs v first (len div 2)"
        using 1(1)[OF False refl refl True] "1.prems" h by simp
      with True False m show ?thesis
        by (subst (1 2) upper_bound_loop.simps) (simp add: Let_def nth_append)
    next
      case c: False
      have "upper_bound_loop (xs @ ys) v (first + len div 2 + 1) (len - len div 2 - 1) =
            upper_bound_loop xs v (first + len div 2 + 1) (len - len div 2 - 1)"
        using 1(2)[OF False refl refl c] "1.prems" h by simp
      with c False m show ?thesis
        by (subst (1 2) upper_bound_loop.simps) (simp add: Let_def nth_append)
    qed
  qed
qed

text \<open>
  On a sorted vector the bisection returns the partition point: the number of leading
  elements less than the value, and the number of leading elements not greater than it.
\<close>

lemma partition_point:
  "k \<le> length xs \<Longrightarrow> \<forall>i<k. P (xs ! i) \<Longrightarrow> \<forall>i. k \<le> i \<and> i < length xs \<longrightarrow> \<not> P (xs ! i) \<Longrightarrow>
   length (takeWhile P xs) = k"
proof -
  assume k: "k \<le> length xs" and a: "\<forall>i<k. P (xs ! i)"
    and b: "\<forall>i. k \<le> i \<and> i < length xs \<longrightarrow> \<not> P (xs ! i)"
  have "takeWhile P xs = take k xs"
    by (rule takeWhile_eq_take_P_nth) (use a b in auto)
  with k show ?thesis by simp
qed

lemma lower_bound_loop_sorted:
  "sorted xs \<Longrightarrow> first + len \<le> length xs \<Longrightarrow> \<forall>i<first. xs ! i < v \<Longrightarrow>
   \<forall>i. first + len \<le> i \<and> i < length xs \<longrightarrow> \<not> xs ! i < v \<Longrightarrow>
   lower_bound_loop xs v first len = length (takeWhile (\<lambda>e. e < v) xs)"
proof (induction xs v first len rule: lower_bound_loop.induct)
  case (1 xs v first len)
  show ?case
  proof (cases "len = 0")
    case True
    with "1.prems" have "length (takeWhile (\<lambda>e. e < v) xs) = first"
      by (intro partition_point) auto
    with True show ?thesis by (simp add: lower_bound_loop.simps)
  next
    case False
    then have h: "len div 2 < len" by simp
    define m where "m = first + len div 2"
    have mlt: "m < length xs" using h "1.prems"(2) by (simp add: m_def)
    show ?thesis
    proof (cases "xs ! m < v")
      case True
      have below: "\<forall>i<m + 1. xs ! i < v"
      proof (intro allI impI)
        fix i assume "i < m + 1"
        then have "i \<le> m" by simp
        then have "xs ! i \<le> xs ! m" using "1.prems"(1) mlt by (simp add: sorted_nth_mono)
        with True show "xs ! i < v" by simp
      qed
      have e: "m + 1 + (len - len div 2 - 1) = first + len" using h by (simp add: m_def)
      have "lower_bound_loop xs v (m + 1) (len - len div 2 - 1) =
            length (takeWhile (\<lambda>e. e < v) xs)"
        using 1(1)[OF False refl refl] True "1.prems" below e unfolding m_def by simp
      with True False show ?thesis
        by (subst lower_bound_loop.simps) (simp add: Let_def m_def)
    next
      case c: False
      have above: "\<forall>i. first + len div 2 \<le> i \<and> i < length xs \<longrightarrow> \<not> xs ! i < v"
      proof (intro allI impI)
        fix i assume "first + len div 2 \<le> i \<and> i < length xs"
        then have "xs ! m \<le> xs ! i" using "1.prems"(1) by (simp add: sorted_nth_mono m_def)
        with c show "\<not> xs ! i < v" by simp
      qed
      have "lower_bound_loop xs v first (len div 2) = length (takeWhile (\<lambda>e. e < v) xs)"
        using 1(2)[OF False refl refl] c "1.prems" above h unfolding m_def by simp
      with c False show ?thesis
        by (subst lower_bound_loop.simps) (simp add: Let_def m_def)
    qed
  qed
qed

lemma upper_bound_loop_sorted:
  "sorted xs \<Longrightarrow> first + len \<le> length xs \<Longrightarrow> \<forall>i<first. \<not> v < xs ! i \<Longrightarrow>
   \<forall>i. first + len \<le> i \<and> i < length xs \<longrightarrow> v < xs ! i \<Longrightarrow>
   upper_bound_loop xs v first len = length (takeWhile (\<lambda>e. \<not> v < e) xs)"
proof (induction xs v first len rule: upper_bound_loop.induct)
  case (1 xs v first len)
  show ?case
  proof (cases "len = 0")
    case True
    with "1.prems" have "length (takeWhile (\<lambda>e. \<not> v < e) xs) = first"
      by (intro partition_point) auto
    with True show ?thesis by (simp add: upper_bound_loop.simps)
  next
    case False
    then have h: "len div 2 < len" by simp
    define m where "m = first + len div 2"
    have mlt: "m < length xs" using h "1.prems"(2) by (simp add: m_def)
    show ?thesis
    proof (cases "v < xs ! m")
      case True
      have above: "\<forall>i. first + len div 2 \<le> i \<and> i < length xs \<longrightarrow> v < xs ! i"
      proof (intro allI impI)
        fix i assume "first + len div 2 \<le> i \<and> i < length xs"
        then have "xs ! m \<le> xs ! i" using "1.prems"(1) by (simp add: sorted_nth_mono m_def)
        with True show "v < xs ! i" by simp
      qed
      have "upper_bound_loop xs v first (len div 2) = length (takeWhile (\<lambda>e. \<not> v < e) xs)"
        using 1(1)[OF False refl refl] True "1.prems" above h unfolding m_def by simp
      with True False show ?thesis
        by (subst upper_bound_loop.simps) (simp add: Let_def m_def)
    next
      case c: False
      have below: "\<forall>i<m + 1. \<not> v < xs ! i"
      proof (intro allI impI)
        fix i assume "i < m + 1"
        then have "i \<le> m" by simp
        then have "xs ! i \<le> xs ! m" using "1.prems"(1) mlt by (simp add: sorted_nth_mono)
        with c show "\<not> v < xs ! i" by simp
      qed
      have e: "m + 1 + (len - len div 2 - 1) = first + len" using h by (simp add: m_def)
      have "upper_bound_loop xs v (m + 1) (len - len div 2 - 1) =
            length (takeWhile (\<lambda>e. \<not> v < e) xs)"
        using 1(2)[OF False refl refl] c "1.prems" below e unfolding m_def by simp
      with c False show ?thesis
        by (subst upper_bound_loop.simps) (simp add: Let_def m_def)
    qed
  qed
qed

lemma lower_bound_sorted:
  "sorted xs \<Longrightarrow> lower_bound xs v = length (takeWhile (\<lambda>e. e < v) xs)"
  using lower_bound_loop_sorted[of xs 0 "length xs" v] by (simp add: lower_bound_def)

lemma upper_bound_sorted:
  "sorted xs \<Longrightarrow> upper_bound xs v = length (takeWhile (\<lambda>e. \<not> v < e) xs)"
  using upper_bound_loop_sorted[of xs 0 "length xs" v] by (simp add: upper_bound_def)

text \<open>
  On a vector that is not sorted the bisection and a scan from the front differ: in
  \<open>[9.5, 1, 11.5]\<close> the first element is already greater than 9, and the bisection
  returns 2.
\<close>

lemma bisection_unsorted_example:
  "upper_bound [19 / 2, 1, 23 / 2] 9 = 2 \<and>
   length (takeWhile (\<lambda>e. \<not> 9 < e) [19 / 2, 1, 23 / 2 :: real]) = 0 \<and>
   lower_bound [19 / 2, 1, 23 / 2] 9 = 2"
  by (simp add: lower_bound_def upper_bound_def lower_bound_loop.simps upper_bound_loop.simps
      Let_def)

section \<open>Properties of the sampling loop\<close>

lemma NormalizeAngle_id:
  assumes "- pi \<le> a" "a < pi"
  shows "NormalizeAngle a = a"
proof -
  have q0: "0 \<le> (a + pi) / (2 * pi)" using assms by simp
  have q1: "(a + pi) / (2 * pi) < 1" using assms by simp
  have fl: "\<lfloor>(a + pi) / (2 * pi)\<rfloor> = 0" using q0 q1 by (simp add: floor_eq_iff)
  have "fmod (a + pi) (2 * pi) = a + pi"
    unfolding fmod_def using q0 fl by simp
  then show ?thesis using assms by (simp add: NormalizeAngle_def Let_def)
qed

lemma NormalizeAngle_0: "NormalizeAngle 0 = 0"
  using pi_ge_two by (intro NormalizeAngle_id) simp_all

lemma sample_body_recorded:
  "recorded_at config path start_s end_s st \<Longrightarrow>
   center_lane_s (samples (snd (sample_body config path start_s end_s st))) =
     center_lane_s (samples st) @ [check_point_s st] \<and>
   (consistent_samples path (samples st) \<longrightarrow>
    consistent_samples path (samples (snd (sample_body config path start_s end_s st)))) \<and>
   fst (sample_body config path start_s end_s st) = (check_point_s st = end_s)"
  by (auto simp: recorded_at_def sample_body_def Let_def consistent_samples_def edge_point_def
      diff_conv_add_uminus simp del: add_uminus_conv_diff)


lemma sample_body_next:
  "\<not> fst (sample_body config path start_s end_s st) \<Longrightarrow>
   check_point_s (snd (sample_body config path start_s end_s st)) =
     next_check_point_s config end_s (loop_index st + 1) \<and>
   loop_index (snd (sample_body config path start_s end_s st)) = loop_index st + 1 \<and>
   last_check_point_heading (snd (sample_body config path start_s end_s st)) =
     heading (GetSmoothPoint path (check_point_s st))"
  by (auto simp: sample_body_def Let_def split: if_splits)









text \<open>With a positive segment length the loop ends, whatever the path.\<close>

lemma sample_loop_at_end:
  assumes "check_point_s st = end_s"
  shows "\<exists>st'. sample_loop config path start_s end_s st = Some st'"
proof -
  have r: "recorded_at config path start_s end_s st" using assms by (simp add: recorded_at_def)
  from sample_body_recorded[OF r] assms have f: "fst (sample_body config path start_s end_s st)" by simp
  obtain leave st1 where b: "sample_body config path start_s end_s st = (leave, st1)"
    by (cases "sample_body config path start_s end_s st")
  with f have "leave" by simp
  with b assms show ?thesis
    by (simp add: sample_loop.simps[of config path start_s end_s st])
qed

lemma sample_loop_returns:
  assumes L: "0 < roi_linesegment_length config"
  shows "\<exists>st'. sample_loop config path start_s end_s st = Some st'"
proof (induction "nat \<lceil>end_s / roi_linesegment_length config - loop_index st\<rceil>" arbitrary: st rule: less_induct)
  case less
  show ?case
  proof (cases "check_point_s st \<le> end_s")
    case False
    then show ?thesis by (simp add: sample_loop.simps[of config path start_s end_s st])
  next
    case True
    obtain leave st1 where b: "sample_body config path start_s end_s st = (leave, st1)"
      by (cases "sample_body config path start_s end_s st")
    show ?thesis
    proof (cases leave)
      case True
      with b \<open>check_point_s st \<le> end_s\<close> show ?thesis
        by (simp add: sample_loop.simps[of config path start_s end_s st])
    next
      case False
      with b \<open>check_point_s st \<le> end_s\<close>
      have u: "sample_loop config path start_s end_s st = sample_loop config path start_s end_s st1"
        by (simp add: sample_loop.simps[of config path start_s end_s st])
      from sample_body_next[of config path start_s end_s st] b False
      have n: "check_point_s st1 = next_check_point_s config end_s (loop_index st + 1)"
        and i: "loop_index st1 = loop_index st + 1" by simp_all
      show ?thesis
      proof (cases "(loop_index st + 1) * roi_linesegment_length config \<ge> end_s")
        case True
        with n have "check_point_s st1 = end_s" by (simp add: next_check_point_s_def Let_def)
        from sample_loop_at_end[OF this] u show ?thesis by simp
      next
        case False
        then have "(loop_index st + 1) * roi_linesegment_length config < end_s" by simp
        then have "loop_index st + 1 < end_s / roi_linesegment_length config"
          using L by (simp add: pos_less_divide_eq)
        then have pos: "0 < end_s / roi_linesegment_length config - loop_index st1"
          using i by simp
        have "end_s / roi_linesegment_length config - loop_index st1
              = (end_s / roi_linesegment_length config - loop_index st) - 1"
          using i by simp
        then have "\<lceil>end_s / roi_linesegment_length config - loop_index st1\<rceil>
              = \<lceil>end_s / roi_linesegment_length config - loop_index st\<rceil> - 1"
          by (simp only: ceiling_diff_one)
        moreover have "0 < \<lceil>end_s / roi_linesegment_length config - loop_index st1\<rceil>"
          using pos by simp
        ultimately have "nat \<lceil>end_s / roi_linesegment_length config - loop_index st1\<rceil>
            < nat \<lceil>end_s / roi_linesegment_length config - loop_index st\<rceil>" by linarith
        from less[OF this] u show ?thesis by simp
      qed
    qed
  qed
qed

lemma sample_lane_returns:
  "0 < roi_linesegment_length config \<Longrightarrow> \<exists>smp. sample_lane config path start_s end_s = Some smp"
  using sample_loop_returns[of config path start_s end_s]
  by (simp add: sample_lane_def Let_def)


lemmas boundary_eval = build_boundary_def points_at_def sample_lane_def sample_loop.simps
  sample_body_def next_check_point_s_def NormalizeAngle_0 Angle_def atan2_def into_frame_def
  SelfRotate_def vec_add_def vec_sub_def vec_mul_def vec_div_def rescale_point_def
  stitch_right_def stitch_left_def lower_bound_sorted upper_bound_sorted segments_up_def
  segments_down_def last_index_def at_index_def no_samples_def mkVec2d_def Let_def
  Vec2d.truncate_def


text \<open>
  The stations need not be sorted. The first station is \<open>start_s\<close> and the later ones are
  multiples of the segment length: from \<open>start_s = 9.5\<close> to \<open>end_s = 11.5\<close>, with a segment
  length of 5 and a minimum angle of 0 (every station is recorded), the stations are
  \<open>9.5, 5, 10, 11.5\<close>. On them the lower-bound search for 9 returns 2, while the first
  element is already not less than 9.
\<close>

lemma stations_not_sorted_example:
  "map_option center_lane_s
     (sample_lane (config10\<lparr>roi_linesegment_min_angle := 0, roi_linesegment_length := 5\<rparr>)
        straight_path (19 / 2) (23 / 2)) = Some [19 / 2, 5, 10, 23 / 2] \<and>
   \<not> sorted [19 / 2, 5, 10, 23 / 2 :: real] \<and>
   lower_bound [19 / 2, 5, 10, 23 / 2] 9 = 2 \<and>
   length (takeWhile (\<lambda>e. e < 9) [19 / 2, 5, 10, 23 / 2 :: real]) = 0"
  by (simp add: boundary_eval config10_def straight_path_def lower_bound_def
      lower_bound_loop.simps)




section \<open>Properties of the rescaling\<close>










lemma right_stage_built: "build_boundary config10 right_spot straight_path = Inr (Some right_stage)"
  by (simp add: boundary_eval config10_def straight_path_def right_spot_def right_stage_def)




section \<open>Properties of the stitching\<close>

text \<open>
  The clamp keeps the near bracket inside a non-empty vector, and both searches return
  at most the length.
\<close>

lemma near_bracket_in_range:
  "xs \<noteq> [] \<Longrightarrow>
   (if lower_bound xs v = 0 then lower_bound xs v else lower_bound xs v - 1) < length xs"
proof -
  assume "xs \<noteq> []"
  moreover have "lower_bound xs v \<le> length xs"
    by (rule lower_bound_le_length)
  ultimately show ?thesis by (cases xs) auto
qed

lemma far_bracket_at_most_length: "upper_bound xs v \<le> length xs"
  by (rule upper_bound_le_length)

text \<open>
  C3, at the failing input. With a longitudinal range of 1 and a spot whose top corners
  project to \<open>s = 9\<close> and \<open>s = 12\<close>, the stations are \<open>9.5\<close> and \<open>11.5\<close>; the upper-bound
  search for \<open>12\<close> returns the length 2, the index is not clamped, and the read of the
  right edge at index 2 for the right stitching segment is outside the vector.
\<close>

theorem far_bracket_read_out_of_range:
  "map_option center_lane_s (sample_lane config1 straight_path (19 / 2) (23 / 2)) =
     Some [19 / 2, 23 / 2] \<and>
   upper_bound [19 / 2, 23 / 2] 12 = length [19 / 2, 23 / 2 :: real] \<and>
   build_boundary config1 right_spot straight_path = Inl OutOfRange"
  by (simp add: boundary_eval config10_def config1_def straight_path_def right_spot_def)

text \<open>
  The left branch always closes the boundary polyline; the right branch closes it when
  the lower-bound search returns an index above 1 (so that the near bracket is positive),
  or when the left top corner happens to be the first point of the right edge.
\<close>

lemma stitch_left_closed:
  "stitch_left r l ss c lts rts = Inr (bp, segs) \<Longrightarrow> hd bp = last bp"
  by (auto simp: stitch_left_def Let_def split: if_splits sum.splits)

lemma stitch_right_closed_iff:
  "stitch_right r l ss c lts rts = Inr (bp, segs) \<Longrightarrow>
   (hd bp = last bp) = (1 < lower_bound ss lts \<or> left_top c = hd r)"
proof -
  assume a: "stitch_right r l ss c lts rts = Inr (bp, segs)"
  define near where "near = (if lower_bound ss lts = 0 then lower_bound ss lts else lower_bound ss lts - 1)"
  from a have r: "r \<noteq> []" by (auto simp: stitch_right_def Let_def split: if_splits)
  from a r have bp: "bp = take near r @ [left_top c, left_down c, right_down c, right_top c] @
      drop (upper_bound ss rts) r @ rev l @ [hd r]"
    by (auto simp: stitch_right_def Let_def near_def split: if_splits sum.splits)
  have l: "last bp = hd r" using bp by simp
  show ?thesis
  proof (cases "near = 0")
    case True
    then have "hd bp = left_top c" using bp by simp
    moreover from True have "\<not> 1 < lower_bound ss lts" by (auto simp: near_def split: if_splits)
    ultimately show ?thesis using l by auto
  next
    case False
    then have "take near r \<noteq> []" using r by simp
    then have "hd bp = hd r" using bp False by (simp add: hd_append)
    moreover from False have "1 < lower_bound ss lts" by (auto simp: near_def split: if_splits)
    ultimately show ?thesis using l by simp
  qed
qed

text \<open>
  C7, at the failing input. On the straight lane with the spot on the right, the near
  bracket index is 0: no point of the right edge is copied before the corners, the
  boundary polyline starts with the left top corner \<open>(0, 0)\<close> and ends with the first point
  of the right edge \<open>(-8.5, 0)\<close>.
\<close>

theorem right_branch_boundary_not_closed:
  "build_boundary config10 right_spot straight_path = Inr (Some right_stage) \<and>
   stage_average_l right_stage < 0 \<and>
   hd (stage_boundary_points right_stage) = mkVec2d 0 0 \<and>
   last (stage_boundary_points right_stage) = mkVec2d (- (17 / 2)) 0 \<and>
   hd (stage_boundary_points right_stage) \<noteq> last (stage_boundary_points right_stage)"
  using right_stage_built by (simp add: right_stage_def mkVec2d_def)

section \<open>The vehicle outside the box\<close>

text \<open>
  C8. When the routing request names a parking space, the boundary has been stitched and
  fused and the box computed, and the vehicle position taken into the parking frame is
  outside the box in some coordinate, then \<open>GetParkingBoundary\<close> returns false and
  \<open>Process\<close> returns the planning-error status with the message of the failed boundary;
  neither meets a fault. The frame then holds the origin and the box; its end pose, its
  vertices, its edge counts and its matrices are as before.
\<close>

theorem vehicle_outside_fails:
  assumes "routing_parking_space_id frame = Some spot_id"
    and "lookup frame = Some (spot, path)"
    and "build_boundary config spot path = Inr (Some stage)"
    and "FuseLineSegments (stage_segments stage) = Inr (True, roi)"
    and "ROI_box (stage_boundary_points stage) = Inr box"
    and "vehicle_outside
           (into_frame (stage_origin_point stage) (stage_origin_heading stage)
              (mkVec2d (state_x (vehicle_state frame)) (state_y (vehicle_state frame))))
           box"
  shows "GetParkingBoundary config vehicle_params lookup frame [] =
           Inr (False,
                frame\<lparr>open_space_info := (open_space_info frame)
                  \<lparr>origin_heading := stage_origin_heading stage,
                   origin_point := stage_origin_point stage,
                   ROI_xy_boundary := box\<rparr>\<rparr>,
                roi) \<and>
         Process config vehicle_params lookup box_distance (Some frame) =
           Inr (Status PLANNING_ERROR ''Fail to get parking boundary from map'',
                Some (frame\<lparr>open_space_info := (open_space_info frame)
                  \<lparr>origin_heading := stage_origin_heading stage,
                   origin_point := stage_origin_point stage,
                   ROI_xy_boundary := box\<rparr>\<rparr>))"
proof -
  have g: "GetParkingBoundary config vehicle_params lookup frame [] =
           Inr (False,
                frame\<lparr>open_space_info := (open_space_info frame)
                  \<lparr>origin_heading := stage_origin_heading stage,
                   origin_point := stage_origin_point stage,
                   ROI_xy_boundary := box\<rparr>\<rparr>,
                roi)"
    using assms(2-6) by (simp add: GetParkingBoundary_def Let_def)
  then show ?thesis using assms(1) by (simp add: Process_def)
qed

lemma right_stage_fused:
  "FuseLineSegments (stage_segments right_stage) =
     Inr (True, [[mkVec2d (- (17 / 2)) 0, mkVec2d 0 0, mkVec2d 0 (- 5)],
                 [mkVec2d 0 (- 5), mkVec2d 3 (- 5)],
                 [mkVec2d 3 (- 5), mkVec2d 3 0, mkVec2d (23 / 2) 0],
                 [mkVec2d (23 / 2) 4, mkVec2d (- (17 / 2)) 4]])"
  by (simp add: right_stage_def fuse_eval)

lemma right_stage_box:
  "ROI_box (stage_boundary_points right_stage) = Inr [- (17 / 2), 23 / 2, - 5, 4]"
  by (simp add: right_stage_def ROI_box_def mkVec2d_def)

lemma outside_vehicle:
  "vehicle_outside
     (into_frame (stage_origin_point right_stage) (stage_origin_heading right_stage)
        (mkVec2d (state_x (vehicle_state outside_frame)) (state_y (vehicle_state outside_frame))))
     [- (17 / 2), 23 / 2, - 5, 4]"
  by (simp add: right_stage_def outside_frame_def vehicle_outside_def into_frame_def SelfRotate_def
      vec_sub_def mkVec2d_def)

theorem vehicle_outside_fails_witness:
  "vehicle_outside
     (into_frame (stage_origin_point right_stage) (stage_origin_heading right_stage)
        (mkVec2d (state_x (vehicle_state outside_frame)) (state_y (vehicle_state outside_frame))))
     [- (17 / 2), 23 / 2, - 5, 4] \<and>
   Process config10 \<lparr>front_edge_to_center = 4, back_edge_to_center = 1\<rparr>
       (\<lambda>frame. Some (right_spot, straight_path)) (\<lambda>box p. 0) (Some outside_frame) =
     Inr (Status PLANNING_ERROR ''Fail to get parking boundary from map'',
          Some (outside_frame\<lparr>open_space_info := (open_space_info outside_frame)
                  \<lparr>origin_heading := 0, origin_point := mkVec2d 9 (- 2),
                   ROI_xy_boundary := [- (17 / 2), 23 / 2, - 5, 4]\<rparr>\<rparr>))"
proof -
  have r: "routing_parking_space_id outside_frame = Some ''spot''" by (simp add: outside_frame_def)
  have l: "(\<lambda>frame. Some (right_spot, straight_path)) outside_frame = Some (right_spot, straight_path)"
    by simp
  from vehicle_outside_fails[of outside_frame "''spot''" "\<lambda>frame. Some (right_spot, straight_path)" right_spot
      straight_path config10 right_stage _ "[- (17 / 2), 23 / 2, - 5, 4]"
      "\<lparr>front_edge_to_center = 4, back_edge_to_center = 1\<rparr>" "\<lambda>box p. 0",
      OF r l right_stage_built right_stage_fused right_stage_box outside_vehicle]
  show ?thesis using outside_vehicle by (simp add: right_stage_def)
qed

end
